theory Spec2Isabelle
  imports Complex_Main
begin

section \<open>Failures as values\<close>

text \<open>
  The source is \<^verbatim>\<open>src/models/senet.py\<close>: a PyTorch definition of a 1-D
  Squeeze-and-Excitation ResNet followed by a GRU, an additive attention layer and a
  linear classifier. Numbers are real numbers here, not the 32-bit floats of the
  framework: rounding is not modelled. A failure is a value:
  \<^item> \<open>AssertionError\<close>: the \<^verbatim>\<open>assert\<close> of \<^verbatim>\<open>SEModule.__init__\<close>;
  \<^item> \<open>ZeroDivisionError\<close>, \<open>IndexError\<close>, \<open>AttributeError\<close>: raised by Python itself
    (\<^verbatim>\<open>channels // reduction\<close>, \<^verbatim>\<open>layers[i]\<close>, a missing attribute);
  \<^item> \<open>FrameworkError\<close>: raised inside the tensor framework (a shape that does not fit);
  \<^item> \<open>NonFinite\<close>: the float result is \<^verbatim>\<open>inf\<close> or \<^verbatim>\<open>nan\<close>
    (a division by zero, the mean of no number), which no real number stands for. The
    code raises nothing there and computes on; the model stops.
\<close>

datatype error =
  AssertionError | ZeroDivisionError | IndexError | AttributeError | FrameworkError | NonFinite

definition and_then :: "error + 'a \<Rightarrow> ('a \<Rightarrow> error + 'b) \<Rightarrow> error + 'b" where
  "and_then r f = (case r of Inl e \<Rightarrow> Inl e | Inr v \<Rightarrow> f v)"

fun sequence :: "(error + 'a) list \<Rightarrow> error + 'a list" where
  "sequence [] = Inr []"
| "sequence (r # rs) = and_then r (\<lambda>v. and_then (sequence rs) (\<lambda>vs. Inr (v # vs)))"

section \<open>Construction\<close>

text \<open>
  What the constructors build: the tree of modules that \<^verbatim>\<open>print(m)\<close> shows, every module
  with its class, the integer arguments it was built with and its named child modules in
  the order of registration. The values of the parameters (the framework draws them at
  random) are not part of the tree, and neither is \<^verbatim>\<open>drop_rate\<close>, a float.
\<close>

datatype block = SEBottleneck | SEResNetBottleneck | SEResNeXtBottleneck | SEResNetBlock

datatype cls =
    Conv1d | Conv2d | BatchNorm1d | BatchNorm2d | ReLU | Sigmoid | MaxPool1d
  | AdaptiveAvgPool1d | AdaptiveMaxPool1d | Linear | LSTM | GRU | Sequential | ModuleList
  | Attention | HighwayMLP | CBAM_Module | SCSEModule | SEModule | Block block
  | SelectAdaptivePool1d | SENet

datatype module =
  Module (cls: cls) (attrs: "(string \<times> int) list") (children: "(string \<times> module) list")

text \<open>\<^verbatim>\<open>nn.Module.modules()\<close>: the module itself, then the modules of its children.\<close>

fun modules :: "module \<Rightarrow> module list" where
  "modules (Module c a ch) = Module c a ch # concat (map (\<lambda>p. modules (snd p)) ch)"

definition child :: "string \<Rightarrow> module \<Rightarrow> module option" where
  "child name m = map_of (children m) name"

definition attr :: "string \<Rightarrow> module \<Rightarrow> int option" where
  "attr name m = map_of (attrs m) name"

text \<open>
  The framework decides whether it accepts the arguments of one of its own constructors
  (a negative size, a number of channels that the groups do not divide): \<open>fw\<close> is that
  decision, and the constructors below hold for every \<open>fw\<close>.
\<close>

type_synonym framework = "cls \<Rightarrow> (string \<times> int) list \<Rightarrow> bool"

definition nn :: "framework \<Rightarrow> cls \<Rightarrow> (string \<times> int) list \<Rightarrow> error + module" where
  "nn fw c a = (if fw c a then Inr (Module c a []) else Inl FrameworkError)"

definition Conv1d_args :: "int \<Rightarrow> int \<Rightarrow> int \<Rightarrow> int \<Rightarrow> int \<Rightarrow> int \<Rightarrow> bool \<Rightarrow> (string \<times> int) list" where
  "Conv1d_args i out kernel_size stride padding groups with_bias =
     [(''in_channels'', i), (''out_channels'', out), (''kernel_size'', kernel_size),
      (''stride'', stride), (''padding'', padding), (''groups'', groups),
      (''bias'', of_bool with_bias)]"

definition Linear_args :: "int \<Rightarrow> int \<Rightarrow> (string \<times> int) list" where
  "Linear_args i out = [(''in_features'', i), (''out_features'', out)]"

text \<open>Python's \<^verbatim>\<open>a // b\<close> on integers and \<^verbatim>\<open>xs[i]\<close> on a list.\<close>

definition floordiv :: "int \<Rightarrow> int \<Rightarrow> error + int" where
  "floordiv a c = (if c = 0 then Inl ZeroDivisionError else Inr (a div c))"

definition index :: "'a list \<Rightarrow> nat \<Rightarrow> error + 'a" where
  "index xs i = (if i < length xs then Inr (xs ! i) else Inl IndexError)"

text \<open>\<^verbatim>\<open>nn.Sequential(*layers)\<close> names its children \<open>0, 1, 2, ...\<close>.\<close>

fun str :: "nat \<Rightarrow> string" where
  "str n = (if n < 10 then [char_of (48 + n)] else str (n div 10) @ [char_of (48 + n mod 10)])"

declare str.simps [simp del]

definition Sequential_of :: "module list \<Rightarrow> module" where
  "Sequential_of ms = Module Sequential [] (map (\<lambda>i. (str i, ms ! i)) [0..<length ms])"

definition ModuleList_of :: "module list \<Rightarrow> module" where
  "ModuleList_of ms = Module ModuleList [] (map (\<lambda>i. (str i, ms ! i)) [0..<length ms])"

text \<open>\<^verbatim>\<open>Attention.__init__\<close>: two tensors of the framework, no check of its own.\<close>

definition Attention_init :: "framework \<Rightarrow> int \<Rightarrow> int \<Rightarrow> bool \<Rightarrow> error + module" where
  "Attention_init fw feature_dim step_dim with_bias =
     nn fw Attention
       [(''feature_dim'', feature_dim), (''step_dim'', step_dim), (''bias'', of_bool with_bias)]"

definition HighwayMLP_init :: "framework \<Rightarrow> int \<Rightarrow> error + module" where
  "HighwayMLP_init fw input_size =
     and_then (nn fw Linear (Linear_args input_size input_size)) (\<lambda>normal_layer.
     and_then (nn fw Linear (Linear_args input_size input_size)) (\<lambda>gate_layer.
     Inr (Module HighwayMLP []
            [(''normal_layer'', normal_layer), (''gate_layer'', gate_layer)])))"

definition CBAM_Module_init :: "framework \<Rightarrow> int \<Rightarrow> int \<Rightarrow> error + module" where
  "CBAM_Module_init fw channels reduction =
     and_then (nn fw AdaptiveAvgPool1d [(''output_size'', 1)]) (\<lambda>avg_pool.
     and_then (nn fw AdaptiveMaxPool1d [(''output_size'', 1)]) (\<lambda>max_pool.
     and_then (floordiv channels reduction) (\<lambda>q1.
     and_then (nn fw Conv1d (Conv1d_args channels q1 1 1 0 1 True)) (\<lambda>fc1.
     and_then (nn fw ReLU [(''inplace'', 1)]) (\<lambda>relu.
     and_then (floordiv channels reduction) (\<lambda>q2.
     and_then (nn fw Conv1d (Conv1d_args q2 channels 1 1 0 1 True)) (\<lambda>fc2.
     and_then (nn fw Sigmoid []) (\<lambda>sigmoid_channel.
     and_then (nn fw Conv1d (Conv1d_args 2 1 3 1 1 1 True)) (\<lambda>conv_after_concat.
     and_then (nn fw Sigmoid []) (\<lambda>sigmoid_spatial.
     Inr (Module CBAM_Module []
            [(''avg_pool'', avg_pool), (''max_pool'', max_pool), (''fc1'', fc1), (''relu'', relu),
             (''fc2'', fc2), (''sigmoid_channel'', sigmoid_channel),
             (''conv_after_concat'', conv_after_concat),
             (''sigmoid_spatial'', sigmoid_spatial)])))))))))))"

definition SCSEModule_init :: "framework \<Rightarrow> int \<Rightarrow> int \<Rightarrow> error + module" where
  "SCSEModule_init fw channels reduction =
     and_then (nn fw AdaptiveAvgPool1d [(''output_size'', 1)]) (\<lambda>m0.
     and_then (floordiv channels reduction) (\<lambda>q1.
     and_then (nn fw Conv1d (Conv1d_args channels q1 1 1 0 1 True)) (\<lambda>m1.
     and_then (nn fw ReLU [(''inplace'', 1)]) (\<lambda>m2.
     and_then (floordiv channels reduction) (\<lambda>q2.
     and_then (nn fw Conv1d (Conv1d_args q2 channels 1 1 0 1 True)) (\<lambda>m3.
     and_then (nn fw Sigmoid []) (\<lambda>m4.
     let cSE = Sequential_of [m0, m1, m2, m3, m4] in
     and_then (nn fw Conv1d (Conv1d_args channels channels 1 1 0 1 True)) (\<lambda>s0.
     and_then (nn fw Sigmoid []) (\<lambda>s1.
     let sSE = Sequential_of [s0, s1] in
     Inr (Module SCSEModule [] [(''cSE'', cSE), (''sSE'', sSE)]))))))))))"

text \<open>\<^verbatim>\<open>SEModule.__init__\<close>: the assertion comes first.\<close>

definition SEModule_init :: "framework \<Rightarrow> int \<Rightarrow> int \<Rightarrow> error + module" where
  "SEModule_init fw channels reduction =
     (if \<not> channels > reduction then Inl AssertionError
      else
        and_then (nn fw AdaptiveAvgPool1d [(''output_size'', 1)]) (\<lambda>avg_pool.
        and_then (floordiv channels reduction) (\<lambda>q1.
        and_then (nn fw Conv1d (Conv1d_args channels q1 1 1 0 1 True)) (\<lambda>fc1.
        and_then (nn fw ReLU [(''inplace'', 1)]) (\<lambda>relu.
        and_then (floordiv channels reduction) (\<lambda>q2.
        and_then (nn fw Conv1d (Conv1d_args q2 channels 1 1 0 1 True)) (\<lambda>fc2.
        and_then (nn fw Sigmoid []) (\<lambda>sigmoid.
        Inr (Module SEModule []
               [(''avg_pool'', avg_pool), (''fc1'', fc1), (''relu'', relu), (''fc2'', fc2),
                (''sigmoid'', sigmoid)])))))))))"

text \<open>
  The blocks. \<^verbatim>\<open>self.downsample = downsample\<close> registers a child only when
  \<^verbatim>\<open>downsample\<close> is a module, not when it is \<^verbatim>\<open>None\<close>.
\<close>

definition expansion :: "block \<Rightarrow> int" where
  "expansion blk = (case blk of SEResNetBlock \<Rightarrow> 1 | _ \<Rightarrow> 4)"

definition with_downsample :: "module option \<Rightarrow> (string \<times> module) list" where
  "with_downsample downsample =
     (case downsample of None \<Rightarrow> [] | Some d \<Rightarrow> [(''downsample'', d)])"

definition SEBottleneck_init ::
  "framework \<Rightarrow> int \<Rightarrow> int \<Rightarrow> int \<Rightarrow> int \<Rightarrow> int \<Rightarrow> module option \<Rightarrow> error + module" where
  "SEBottleneck_init fw inplanes planes groups reduction stride downsample =
     and_then (nn fw Conv1d (Conv1d_args inplanes (planes * 2) 1 1 0 1 False)) (\<lambda>conv1.
     and_then (nn fw BatchNorm1d [(''num_features'', planes * 2)]) (\<lambda>bn1.
     and_then (nn fw Conv1d (Conv1d_args (planes * 2) (planes * 4) 3 stride 1 groups False)) (\<lambda>conv2.
     and_then (nn fw BatchNorm1d [(''num_features'', planes * 4)]) (\<lambda>bn2.
     and_then (nn fw Conv1d (Conv1d_args (planes * 4) (planes * 4) 1 1 0 1 False)) (\<lambda>conv3.
     and_then (nn fw BatchNorm1d [(''num_features'', planes * 4)]) (\<lambda>bn3.
     and_then (nn fw ReLU [(''inplace'', 1)]) (\<lambda>relu.
     and_then (SEModule_init fw (planes * 4) reduction) (\<lambda>se_module.
     Inr (Module (Block SEBottleneck) [(''stride'', stride)]
            ([(''conv1'', conv1), (''bn1'', bn1), (''conv2'', conv2), (''bn2'', bn2),
              (''conv3'', conv3), (''bn3'', bn3), (''relu'', relu), (''se_module'', se_module)]
             @ with_downsample downsample))))))))))"

definition SEResNetBottleneck_init ::
  "framework \<Rightarrow> int \<Rightarrow> int \<Rightarrow> int \<Rightarrow> int \<Rightarrow> int \<Rightarrow> module option \<Rightarrow> error + module" where
  "SEResNetBottleneck_init fw inplanes planes groups reduction stride downsample =
     and_then (nn fw Conv1d (Conv1d_args inplanes planes 1 stride 0 1 False)) (\<lambda>conv1.
     and_then (nn fw BatchNorm1d [(''num_features'', planes)]) (\<lambda>bn1.
     and_then (nn fw Conv1d (Conv1d_args planes planes 7 1 3 groups False)) (\<lambda>conv2.
     and_then (nn fw BatchNorm1d [(''num_features'', planes)]) (\<lambda>bn2.
     and_then (nn fw Conv1d (Conv1d_args planes (planes * 4) 1 1 0 1 False)) (\<lambda>conv3.
     and_then (nn fw BatchNorm1d [(''num_features'', planes * 4)]) (\<lambda>bn3.
     and_then (nn fw ReLU [(''inplace'', 1)]) (\<lambda>relu.
     and_then (SEModule_init fw (planes * 4) reduction) (\<lambda>se_module.
     Inr (Module (Block SEResNetBottleneck) [(''stride'', stride)]
            ([(''conv1'', conv1), (''bn1'', bn1), (''conv2'', conv2), (''bn2'', bn2),
              (''conv3'', conv3), (''bn3'', bn3), (''relu'', relu), (''se_module'', se_module)]
             @ with_downsample downsample))))))))))"

text \<open>
  \<^verbatim>\<open>width = math.floor(planes * (base_width / 64)) * groups\<close>; \<open>base_width / 64\<close> is a
  power of two times an integer, so the float product is exact and its floor is the
  integer quotient.
\<close>

definition SEResNeXtBottleneck_init ::
  "framework \<Rightarrow> int \<Rightarrow> int \<Rightarrow> int \<Rightarrow> int \<Rightarrow> int \<Rightarrow> module option \<Rightarrow> int \<Rightarrow> error + module" where
  "SEResNeXtBottleneck_init fw inplanes planes groups reduction stride downsample base_width =
     (let width = (planes * base_width) div 64 * groups in
      and_then (nn fw Conv1d (Conv1d_args inplanes width 1 1 0 1 False)) (\<lambda>conv1.
      and_then (nn fw BatchNorm1d [(''num_features'', width)]) (\<lambda>bn1.
      and_then (nn fw Conv1d (Conv1d_args width width 7 stride 3 groups False)) (\<lambda>conv2.
      and_then (nn fw BatchNorm1d [(''num_features'', width)]) (\<lambda>bn2.
      and_then (nn fw Conv1d (Conv1d_args width (planes * 4) 1 1 0 1 False)) (\<lambda>conv3.
      and_then (nn fw BatchNorm1d [(''num_features'', planes * 4)]) (\<lambda>bn3.
      and_then (nn fw ReLU [(''inplace'', 1)]) (\<lambda>relu.
      and_then (SEModule_init fw (planes * 4) reduction) (\<lambda>se_module.
      Inr (Module (Block SEResNeXtBottleneck) [(''stride'', stride)]
             ([(''conv1'', conv1), (''bn1'', bn1), (''conv2'', conv2), (''bn2'', bn2),
               (''conv3'', conv3), (''bn3'', bn3), (''relu'', relu), (''se_module'', se_module)]
              @ with_downsample downsample)))))))))))"

definition SEResNetBlock_init ::
  "framework \<Rightarrow> int \<Rightarrow> int \<Rightarrow> int \<Rightarrow> int \<Rightarrow> int \<Rightarrow> module option \<Rightarrow> error + module" where
  "SEResNetBlock_init fw inplanes planes groups reduction stride downsample =
     and_then (nn fw Conv1d (Conv1d_args inplanes planes 7 stride 3 1 False)) (\<lambda>conv1.
     and_then (nn fw BatchNorm1d [(''num_features'', planes)]) (\<lambda>bn1.
     and_then (nn fw Conv1d (Conv1d_args planes planes 7 1 3 groups False)) (\<lambda>conv2.
     and_then (nn fw BatchNorm1d [(''num_features'', planes)]) (\<lambda>bn2.
     and_then (nn fw ReLU [(''inplace'', 1)]) (\<lambda>relu.
     and_then (SEModule_init fw planes reduction) (\<lambda>se_module.
     Inr (Module (Block SEResNetBlock) [(''stride'', stride)]
            ([(''conv1'', conv1), (''bn1'', bn1), (''conv2'', conv2), (''bn2'', bn2),
              (''relu'', relu), (''se_module'', se_module)]
             @ with_downsample downsample))))))))"

text \<open>The call \<^verbatim>\<open>block(inplanes, planes, groups, reduction, stride, downsample)\<close>.\<close>

definition block_init ::
  "framework \<Rightarrow> block \<Rightarrow> int \<Rightarrow> int \<Rightarrow> int \<Rightarrow> int \<Rightarrow> int \<Rightarrow> module option \<Rightarrow> error + module" where
  "block_init fw blk inplanes planes groups reduction stride downsample =
     (case blk of
        SEBottleneck \<Rightarrow> SEBottleneck_init fw inplanes planes groups reduction stride downsample
      | SEResNetBottleneck \<Rightarrow>
          SEResNetBottleneck_init fw inplanes planes groups reduction stride downsample
      | SEResNeXtBottleneck \<Rightarrow>
          SEResNeXtBottleneck_init fw inplanes planes groups reduction stride downsample 4
      | SEResNetBlock \<Rightarrow> SEResNetBlock_init fw inplanes planes groups reduction stride downsample)"

text \<open>
  \<^verbatim>\<open>SENet._make_layer\<close>. It reads and updates \<^verbatim>\<open>self.inplanes\<close>: the model takes the
  value and returns the new one with the layer. \<^verbatim>\<open>range(1, blocks)\<close> is empty when
  \<open>blocks \<le> 1\<close>.
\<close>

definition make_layer ::
  "framework \<Rightarrow> int \<Rightarrow> block \<Rightarrow> int \<Rightarrow> int \<Rightarrow> int \<Rightarrow> int \<Rightarrow> int \<Rightarrow> int \<Rightarrow> int
   \<Rightarrow> error + module \<times> int" where
  "make_layer fw self_inplanes blk planes blocks groups reduction stride
     downsample_kernel_size downsample_padding =
     and_then
       (if stride \<noteq> 1 \<or> self_inplanes \<noteq> planes * expansion blk
        then
          and_then (nn fw Conv1d (Conv1d_args self_inplanes (planes * expansion blk)
                      downsample_kernel_size stride downsample_padding 1 False)) (\<lambda>m0.
          and_then (nn fw BatchNorm1d [(''num_features'', planes * expansion blk)]) (\<lambda>m1.
          Inr (Some (Sequential_of [m0, m1]))))
        else Inr None) (\<lambda>downsample.
     and_then (block_init fw blk self_inplanes planes groups reduction stride downsample) (\<lambda>first.
     let self_inplanes = planes * expansion blk in
     and_then (sequence (replicate (nat (blocks - 1))
                 (block_init fw blk self_inplanes planes groups reduction 1 None))) (\<lambda>more.
     Inr (Sequential_of (first # more), self_inplanes))))"

text \<open>
  \<^verbatim>\<open>_weight_init\<close>: the calls into \<^verbatim>\<open>nn.init\<close> that it makes for a module. No class of
  this file derives from \<^verbatim>\<open>nn.Conv2d\<close> or \<^verbatim>\<open>nn.BatchNorm2d\<close>.
\<close>

datatype init_call = Kaiming_normal module string | Constant module string int

definition weight_init :: "module \<Rightarrow> init_call list" where
  "weight_init m =
     (if cls m = Conv2d then [Kaiming_normal m ''weight'']
      else if cls m = BatchNorm2d then [Constant m ''weight'' 1, Constant m ''bias'' 0]
      else [])"

text \<open>
  \<^verbatim>\<open>SENet.__init__\<close>. It returns the network and the calls into \<^verbatim>\<open>nn.init\<close> made by
  its last loop. \<open>pool\<close> is the constructor \<^verbatim>\<open>SelectAdaptivePool1d\<close> of
  \<^verbatim>\<open>models/utils.py\<close>, a file that is not among the sources: it is a parameter.
\<close>

definition SENet_init ::
  "framework \<Rightarrow> (string \<Rightarrow> error + module) \<Rightarrow> block \<Rightarrow> int list \<Rightarrow> int \<Rightarrow> int \<Rightarrow> real \<Rightarrow> int
   \<Rightarrow> int \<Rightarrow> bool \<Rightarrow> int \<Rightarrow> int \<Rightarrow> int \<Rightarrow> string \<Rightarrow> error + module \<times> init_call list" where
  "SENet_init fw pool blk layers groups reduction drop_rate in_chans inplanes input_3x3
     downsample_kernel_size downsample_padding num_classes global_pool =
     and_then
       (if input_3x3 then
          and_then (nn fw Conv1d (Conv1d_args in_chans 64 3 2 1 1 False)) (\<lambda>conv1.
          and_then (nn fw BatchNorm1d [(''num_features'', 64)]) (\<lambda>bn1.
          and_then (nn fw ReLU [(''inplace'', 1)]) (\<lambda>relu1.
          and_then (nn fw Conv1d (Conv1d_args 64 64 3 1 1 1 False)) (\<lambda>conv2.
          and_then (nn fw BatchNorm1d [(''num_features'', 64)]) (\<lambda>bn2.
          and_then (nn fw ReLU [(''inplace'', 1)]) (\<lambda>relu2.
          and_then (nn fw Conv1d (Conv1d_args 64 inplanes 3 1 1 1 False)) (\<lambda>conv3.
          and_then (nn fw BatchNorm1d [(''num_features'', inplanes)]) (\<lambda>bn3.
          and_then (nn fw ReLU [(''inplace'', 1)]) (\<lambda>relu3.
          Inr [(''conv1'', conv1), (''bn1'', bn1), (''relu1'', relu1), (''conv2'', conv2),
               (''bn2'', bn2), (''relu2'', relu2), (''conv3'', conv3), (''bn3'', bn3),
               (''relu3'', relu3)])))))))))
        else
          and_then (nn fw Conv1d (Conv1d_args in_chans inplanes 7 2 3 1 False)) (\<lambda>conv1.
          and_then (nn fw BatchNorm1d [(''num_features'', inplanes)]) (\<lambda>bn1.
          and_then (nn fw ReLU [(''inplace'', 1)]) (\<lambda>relu1.
          Inr [(''conv1'', conv1), (''bn1'', bn1), (''relu1'', relu1)]))))
       (\<lambda>layer0_modules.
     and_then (nn fw MaxPool1d [(''kernel_size'', 3), (''stride'', 2), (''ceil_mode'', 1)]) (\<lambda>pool0.
     let layer0 = Module Sequential [] (layer0_modules @ [(''pool'', pool0)]) in
     and_then (index layers 0) (\<lambda>blocks1.
     and_then (make_layer fw inplanes blk 64 blocks1 groups reduction 1 1 0) (\<lambda>(layer1, inplanes1).
     and_then (index layers 1) (\<lambda>blocks2.
     and_then (make_layer fw inplanes1 blk 128 blocks2 groups reduction 2
                 downsample_kernel_size downsample_padding) (\<lambda>(layer2, inplanes2).
     and_then (index layers 2) (\<lambda>blocks3.
     and_then (make_layer fw inplanes2 blk 256 blocks3 groups reduction 2
                 downsample_kernel_size downsample_padding) (\<lambda>(layer3, inplanes3).
     and_then (index layers 3) (\<lambda>blocks4.
     and_then (make_layer fw inplanes3 blk 512 blocks4 groups reduction 2
                 downsample_kernel_size downsample_padding) (\<lambda>(layer4, inplanes4).
     and_then (pool global_pool) (\<lambda>avg_pool.
     let num_features = 512 * expansion blk;
         highway_number = 2 in
     and_then (sequence (replicate (nat highway_number) (HighwayMLP_init fw num_features)))
       (\<lambda>highways.
     let highway_layers = ModuleList_of highways in
     and_then (nn fw Linear (Linear_args 256 9)) (\<lambda>last_linear.
     and_then (nn fw LSTM [(''input_size'', 400), (''hidden_size'', 128), (''bidirectional'', 1),
                           (''batch_first'', 1)]) (\<lambda>lstm.
     and_then (nn fw GRU [(''input_size'', 400), (''hidden_size'', 128), (''bidirectional'', 1),
                          (''batch_first'', 1)]) (\<lambda>gru.
     and_then (Attention_init fw (128 * 2) 2048 True) (\<lambda>attention_layer.
     let self = Module SENet
           [(''inplanes'', inplanes4), (''num_classes'', num_classes),
            (''num_features'', num_features), (''highway_number'', highway_number)]
           [(''layer0'', layer0), (''layer1'', layer1), (''layer2'', layer2),
            (''layer3'', layer3), (''layer4'', layer4), (''avg_pool'', avg_pool),
            (''highway_layers'', highway_layers), (''last_linear'', last_linear),
            (''lstm'', lstm), (''gru'', gru), (''attention_layer'', attention_layer)]
     in Inr (self, concat (map weight_init (modules self)))))))))))))))))))"

text \<open>
  Two of the factory functions, with the defaults of \<^verbatim>\<open>SENet.__init__\<close> for the
  arguments they do not pass.
\<close>

definition seresnet50 ::
  "framework \<Rightarrow> (string \<Rightarrow> error + module) \<Rightarrow> int \<Rightarrow> int \<Rightarrow> error + module \<times> init_call list" where
  "seresnet50 fw pool num_classes in_chans =
     SENet_init fw pool SEResNetBottleneck [3, 4, 6, 3] 1 16 (2 / 10) in_chans 64 False 1 0
       num_classes ''max''"

definition senet154 ::
  "framework \<Rightarrow> (string \<Rightarrow> error + module) \<Rightarrow> int \<Rightarrow> int \<Rightarrow> error + module \<times> init_call list" where
  "senet154 fw pool num_classes in_chans =
     SENet_init fw pool SEBottleneck [3, 8, 36, 3] 64 16 (2 / 10) in_chans 64 True 3 1
       num_classes ''max''"

text \<open>A tree in which no module is of one of the classes \<open>cs\<close>.\<close>

definition free_of :: "cls list \<Rightarrow> module \<Rightarrow> bool" where
  "free_of cs m = list_all (\<lambda>k. cls k \<notin> set cs) (modules m)"

definition classes :: "module \<Rightarrow> cls list" where
  "classes m = map cls (modules m)"

text \<open>
  The other factory functions, \<^verbatim>\<open>conv3x3\<close> and the two methods of \<^verbatim>\<open>SENet\<close> that deal
  with the classifier. \<^verbatim>\<open>reset_classifier\<close> calls \<^verbatim>\<open>feat_mult()\<close> of the pooling module
  of \<^verbatim>\<open>models/utils.py\<close>: that method is a parameter too. A network built by
  \<^verbatim>\<open>SENet.__init__\<close> has the attribute \<open>num_features\<close>; Python raises
  \<open>AttributeError\<close> on a module without it.
\<close>

definition seresnet18 ::
  "framework \<Rightarrow> (string \<Rightarrow> error + module) \<Rightarrow> int \<Rightarrow> int \<Rightarrow> error + module \<times> init_call list" where
  "seresnet18 fw pool num_classes in_chans =
     SENet_init fw pool SEResNetBlock [2, 2, 2, 2] 1 16 (2 / 10) in_chans 64 False 1 0
       num_classes ''max''"

definition seresnet34 ::
  "framework \<Rightarrow> (string \<Rightarrow> error + module) \<Rightarrow> int \<Rightarrow> int \<Rightarrow> error + module \<times> init_call list" where
  "seresnet34 fw pool num_classes in_chans =
     SENet_init fw pool SEResNetBlock [3, 4, 6, 3] 1 16 (2 / 10) in_chans 64 False 1 0
       num_classes ''max''"

definition seresnet101 ::
  "framework \<Rightarrow> (string \<Rightarrow> error + module) \<Rightarrow> int \<Rightarrow> int \<Rightarrow> error + module \<times> init_call list" where
  "seresnet101 fw pool num_classes in_chans =
     SENet_init fw pool SEResNetBottleneck [3, 4, 23, 3] 1 16 (5 / 10) in_chans 64 False 1 0
       num_classes ''max''"

definition seresnet152 ::
  "framework \<Rightarrow> (string \<Rightarrow> error + module) \<Rightarrow> int \<Rightarrow> int \<Rightarrow> error + module \<times> init_call list" where
  "seresnet152 fw pool num_classes in_chans =
     SENet_init fw pool SEResNetBottleneck [3, 8, 36, 3] 1 16 (5 / 10) in_chans 64 False 1 0
       num_classes ''max''"

definition seresnext26_32x4d ::
  "framework \<Rightarrow> (string \<Rightarrow> error + module) \<Rightarrow> int \<Rightarrow> int \<Rightarrow> error + module \<times> init_call list" where
  "seresnext26_32x4d fw pool num_classes in_chans =
     SENet_init fw pool SEResNeXtBottleneck [2, 2, 2, 2] 32 16 (2 / 10) in_chans 64 False 1 0
       num_classes ''max''"

definition seresnext50_32x4d ::
  "framework \<Rightarrow> (string \<Rightarrow> error + module) \<Rightarrow> int \<Rightarrow> int \<Rightarrow> error + module \<times> init_call list" where
  "seresnext50_32x4d fw pool num_classes in_chans =
     SENet_init fw pool SEResNeXtBottleneck [3, 4, 6, 3] 32 16 (5 / 10) in_chans 64 False 1 0
       num_classes ''max''"

definition seresnext101_32x4d ::
  "framework \<Rightarrow> (string \<Rightarrow> error + module) \<Rightarrow> int \<Rightarrow> int \<Rightarrow> error + module \<times> init_call list" where
  "seresnext101_32x4d fw pool num_classes in_chans =
     SENet_init fw pool SEResNeXtBottleneck [3, 4, 23, 3] 32 16 (5 / 10) in_chans 64 False 1 0
       num_classes ''max''"

definition factories ::
  "(framework \<Rightarrow> (string \<Rightarrow> error + module) \<Rightarrow> int \<Rightarrow> int
    \<Rightarrow> error + module \<times> init_call list) list" where
  "factories =
     [seresnet18, seresnet34, seresnet50, seresnet101, seresnet152, senet154,
      seresnext26_32x4d, seresnext50_32x4d, seresnext101_32x4d]"

definition conv3x3 :: "framework \<Rightarrow> int \<Rightarrow> int \<Rightarrow> int \<Rightarrow> error + module" where
  "conv3x3 fw in_planes out_planes stride =
     nn fw Conv1d (Conv1d_args in_planes out_planes 7 stride 3 1 False)"

definition get_classifier :: "module \<Rightarrow> module option" where
  "get_classifier self = child ''last_linear'' self"

definition reset_classifier ::
  "framework \<Rightarrow> (string \<Rightarrow> error + module) \<Rightarrow> (module \<Rightarrow> error + int) \<Rightarrow> module \<Rightarrow> int \<Rightarrow> string
   \<Rightarrow> error + module" where
  "reset_classifier fw pool feat_mult self num_classes global_pool =
     (let attrs1 = map (\<lambda>p. if fst p = ''num_classes'' then (fst p, num_classes) else p)
                     (attrs self) in
      and_then (pool global_pool) (\<lambda>avg_pool.
      let children1 = map (\<lambda>p. if fst p = ''avg_pool'' then (fst p, avg_pool) else p)
                        (children self);
          children2 = filter (\<lambda>p. fst p \<noteq> ''last_linear'') children1
      in
      if num_classes \<noteq> 0 then
        and_then (case attr ''num_features'' self of
                    None \<Rightarrow> Inl AttributeError | Some v \<Rightarrow> Inr v) (\<lambda>num_features.
        and_then (feat_mult avg_pool) (\<lambda>mult.
        and_then (nn fw Linear (Linear_args (num_features * mult) num_classes)) (\<lambda>last_linear.
        Inr (Module (cls self) attrs1 (children2 @ [(''last_linear'', last_linear)])))))
      else Inr (Module (cls self) attrs1 children2)))"

section \<open>Tensors\<close>

text \<open>
  A tensor of rank 1, 2 or 3 is a list, a list of rows, a list of matrices, in the
  framework's row-major order. The nested lists of a tensor are rectangular; a list
  cannot keep the inner sizes of a tensor whose outer dimension is 0.
\<close>

type_synonym vec = "real list"
type_synonym mat = "real list list"
type_synonym ten3 = "real list list list"

definition is_mat :: "nat \<Rightarrow> nat \<Rightarrow> mat \<Rightarrow> bool" where
  "is_mat n k m = (length m = n \<and> list_all (\<lambda>r. length r = k) m)"

definition is_ten3 :: "nat \<Rightarrow> nat \<Rightarrow> nat \<Rightarrow> ten3 \<Rightarrow> bool" where
  "is_ten3 n c l x = (length x = n \<and> list_all (is_mat c l) x)"

definition chunks :: "nat \<Rightarrow> 'a list \<Rightarrow> 'a list list" where
  "chunks n xs = map (\<lambda>i. take n (drop (i * n) xs)) [0..<length xs div n]"

text \<open>
  \<^verbatim>\<open>t.view(-1, n)\<close> on the elements of a contiguous tensor: the framework refuses it
  when the number of elements is not a multiple of \<open>n\<close>, and when \<open>n = 0\<close>.
\<close>

definition view_rows :: "nat \<Rightarrow> real list \<Rightarrow> error + mat" where
  "view_rows n flat =
     (if n = 0 \<or> length flat mod n \<noteq> 0 then Inl FrameworkError else Inr (chunks n flat))"

definition dot :: "vec \<Rightarrow> vec \<Rightarrow> real" where
  "dot u v = sum_list (map2 (*) u v)"

definition ncols :: "mat \<Rightarrow> nat" where
  "ncols m = (case m of [] \<Rightarrow> 0 | r # _ \<Rightarrow> length r)"

definition column :: "mat \<Rightarrow> nat \<Rightarrow> vec" where
  "column m j = map (\<lambda>r. r ! j) m"

text \<open>\<^verbatim>\<open>torch.mm(a, w)\<close>: the rows of \<open>a\<close> are as long as \<open>w\<close> has rows.\<close>

definition mm :: "mat \<Rightarrow> mat \<Rightarrow> error + mat" where
  "mm a w =
     (if list_all (\<lambda>r. length r = length w) a \<and> list_all (\<lambda>r. length r = ncols w) w
      then Inr (map (\<lambda>r. map (\<lambda>j. dot r (column w j)) [0..<ncols w]) a)
      else Inl FrameworkError)"

text \<open>
  Broadcasting of a binary operation along one dimension: equal sizes go pairwise, a
  size of 1 is repeated along the other operand, anything else is refused.
\<close>

definition blist :: "('a \<Rightarrow> 'b \<Rightarrow> error + 'c) \<Rightarrow> 'a list \<Rightarrow> 'b list \<Rightarrow> error + 'c list" where
  "blist f xs ys =
     (if length xs = length ys then sequence (map2 f xs ys)
      else if length xs = 1 then sequence (map (f (hd xs)) ys)
      else if length ys = 1 then sequence (map (\<lambda>x. f x (hd ys)) xs)
      else Inl FrameworkError)"

definition bvec :: "(real \<Rightarrow> real \<Rightarrow> error + real) \<Rightarrow> vec \<Rightarrow> vec \<Rightarrow> error + vec" where
  "bvec f = blist f"

definition bmat :: "(real \<Rightarrow> real \<Rightarrow> error + real) \<Rightarrow> mat \<Rightarrow> mat \<Rightarrow> error + mat" where
  "bmat f = blist (bvec f)"

definition bten3 :: "(real \<Rightarrow> real \<Rightarrow> error + real) \<Rightarrow> ten3 \<Rightarrow> ten3 \<Rightarrow> error + ten3" where
  "bten3 f = blist (bmat f)"

definition add :: "real \<Rightarrow> real \<Rightarrow> error + real" where
  "add u v = Inr (u + v)"

definition mul :: "real \<Rightarrow> real \<Rightarrow> error + real" where
  "mul u v = Inr (u * v)"

definition divide_t :: "real \<Rightarrow> real \<Rightarrow> error + real" where
  "divide_t u v = (if v = 0 then Inl NonFinite else Inr (u / v))"

text \<open>\<^verbatim>\<open>torch.sum(a, 1, keepdim=True)\<close> of a matrix, \<^verbatim>\<open>torch.unsqueeze(a, -1)\<close>
  of a matrix and \<^verbatim>\<open>torch.sum(t, 1)\<close> of a rank-3 tensor.\<close>

definition sum_keepdim :: "mat \<Rightarrow> mat" where
  "sum_keepdim a = map (\<lambda>r. [sum_list r]) a"

definition unsqueeze_last :: "mat \<Rightarrow> ten3" where
  "unsqueeze_last a = map (map (\<lambda>v. [v])) a"

definition sum_dim1 :: "ten3 \<Rightarrow> mat" where
  "sum_dim1 t = map (\<lambda>m. map (\<lambda>j. sum_list (column m j)) [0..<ncols m]) t"

section \<open>Additive attention\<close>

text \<open>
  \<^verbatim>\<open>class Attention\<close>. \<open>weight\<close> has shape \<open>(feature_dim, 1)\<close> and \<open>b\<close> has shape
  \<open>(step_dim)\<close>; \<open>b\<close> exists only when \<open>bias\<close> is set.
\<close>

record Attention =
  bias :: bool
  feature_dim :: nat
  step_dim :: nat
  weight :: mat
  b :: vec

definition Attention_inst :: "nat \<Rightarrow> nat \<Rightarrow> Attention \<Rightarrow> bool" where
  "Attention_inst f s self =
     (bias self \<and> feature_dim self = f \<and> step_dim self = s \<and>
      is_mat f 1 (weight self) \<and> length (b self) = s)"

text \<open>
  Lines 41 to 58 of the source: the coefficients \<open>a\<close> that \<^verbatim>\<open>forward\<close> multiplies the
  input with. \<open>eij + self.b\<close> broadcasts the vector \<open>b\<close> over the rows of \<open>eij\<close>.
  The constant \<open>1e-10\<close> is added as a real number; in the 32-bit floats of the framework
  it is below the rounding of a coefficient of ordinary size.
\<close>

definition Attention_coefficients :: "Attention \<Rightarrow> ten3 \<Rightarrow> mat option \<Rightarrow> error + mat" where
  "Attention_coefficients self x msk =
     and_then (view_rows (feature_dim self) (concat (concat x))) (\<lambda>xv.
     and_then (mm xv (weight self)) (\<lambda>p.
     and_then (view_rows (step_dim self) (concat p)) (\<lambda>eij0.
     and_then (if bias self then bmat add eij0 [b self] else Inr eij0) (\<lambda>eij1.
     let eij = map (map tanh) eij1;
         a0 = map (map exp) eij
     in
     and_then (case msk of None \<Rightarrow> Inr a0 | Some k \<Rightarrow> bmat mul a0 k) (\<lambda>a1.
     and_then (bmat divide_t a1 (sum_keepdim a1)) (\<lambda>a2.
     Inr (map (map (\<lambda>v. v + 1 / 10 ^ 10)) a2)))))))"

definition Attention_forward :: "Attention \<Rightarrow> ten3 \<Rightarrow> mat option \<Rightarrow> error + mat" where
  "Attention_forward self x msk =
     and_then (Attention_coefficients self x msk) (\<lambda>a.
     and_then (bten3 mul x (unsqueeze_last a)) (\<lambda>weighted_input.
     Inr (sum_dim1 weighted_input)))"

text \<open>
  What the specification says of the layer, for one element \<open>xb\<close> of the batch (a matrix
  of \<open>step_dim\<close> rows \<open>x\<^sub>t\<close>): the score of step \<open>t\<close>, the coefficient of step \<open>t\<close> and the
  weighted sum over the steps.
\<close>

definition score :: "Attention \<Rightarrow> mat \<Rightarrow> nat \<Rightarrow> real" where
  "score self xb t = exp (tanh (dot (xb ! t) (column (weight self) 0) + b self ! t))"

definition coefficient :: "Attention \<Rightarrow> mat \<Rightarrow> nat \<Rightarrow> real" where
  "coefficient self xb t =
     score self xb t / (\<Sum>s < step_dim self. score self xb s) + 1 / 10 ^ 10"

definition weighted_sum :: "Attention \<Rightarrow> mat \<Rightarrow> vec" where
  "weighted_sum self xb =
     map (\<lambda>j. \<Sum>t < step_dim self. coefficient self xb t * xb ! t ! j) [0..<feature_dim self]"

section \<open>Linear layers and Highway gating\<close>

text \<open>
  \<^verbatim>\<open>nn.Linear(in_features, out_features)\<close>, applied to a matrix whose rows are the
  samples: \<open>x W\<^sup>T + bias\<close>, with \<open>lin_weight\<close> of shape \<open>(out_features, in_features)\<close>.
  The framework refuses a row that is not \<open>in_features\<close> long.
\<close>

record Linear =
  in_features :: nat
  out_features :: nat
  lin_weight :: mat
  lin_bias :: vec

definition Linear_inst :: "nat \<Rightarrow> nat \<Rightarrow> Linear \<Rightarrow> bool" where
  "Linear_inst i out l =
     (in_features l = i \<and> out_features l = out \<and> is_mat out i (lin_weight l) \<and>
      length (lin_bias l) = out)"

definition Linear_forward :: "Linear \<Rightarrow> mat \<Rightarrow> error + mat" where
  "Linear_forward l x =
     (if list_all (\<lambda>r. length r = in_features l) x
      then Inr (map (\<lambda>r. map2 (\<lambda>w c. dot r w + c) (lin_weight l) (lin_bias l)) x)
      else Inl FrameworkError)"

text \<open>\<^verbatim>\<open>F.relu\<close> and \<^verbatim>\<open>F.sigmoid\<close> on one number, and on tensors.\<close>

definition relu :: "real \<Rightarrow> real" where
  "relu v = max 0 v"

definition sigmoid :: "real \<Rightarrow> real" where
  "sigmoid v = 1 / (1 + exp (- v))"

definition relu_mat :: "mat \<Rightarrow> error + mat" where
  "relu_mat x = Inr (map (map relu) x)"

definition sigmoid_mat :: "mat \<Rightarrow> error + mat" where
  "sigmoid_mat x = Inr (map (map sigmoid) x)"

text \<open>
  \<^verbatim>\<open>class HighwayMLP\<close>. The two activations are callables handed to the constructor
  (\<^verbatim>\<open>SENet\<close> hands \<^verbatim>\<open>F.relu\<close> and \<^verbatim>\<open>F.sigmoid\<close>); a callable may raise.
\<close>

record HighwayMLP =
  activation_function :: "mat \<Rightarrow> error + mat"
  gate_activation :: "mat \<Rightarrow> error + mat"
  normal_layer :: Linear
  gate_layer :: Linear

definition HighwayMLP_inst :: "nat \<Rightarrow> HighwayMLP \<Rightarrow> bool" where
  "HighwayMLP_inst input_size self =
     (Linear_inst input_size input_size (normal_layer self) \<and>
      Linear_inst input_size input_size (gate_layer self))"

definition HighwayMLP_forward :: "HighwayMLP \<Rightarrow> mat \<Rightarrow> error + mat" where
  "HighwayMLP_forward self x =
     and_then (Linear_forward (normal_layer self) x) (\<lambda>n0.
     and_then (activation_function self n0) (\<lambda>normal_layer_result.
     and_then (Linear_forward (gate_layer self) x) (\<lambda>g0.
     and_then (gate_activation self g0) (\<lambda>gate_layer_result.
     and_then (bmat mul normal_layer_result gate_layer_result) (\<lambda>multiplyed_gate_and_normal.
     and_then (bmat mul (map (map (\<lambda>g. 1 - g)) gate_layer_result) x) (\<lambda>multiplyed_gate_and_input.
     bmat add multiplyed_gate_and_normal multiplyed_gate_and_input))))))"

text \<open>The transformed signal \<open>H(x)\<close> and the gate \<open>g\<close> that the specification names.\<close>

definition transformed :: "HighwayMLP \<Rightarrow> mat \<Rightarrow> error + mat" where
  "transformed self x = and_then (Linear_forward (normal_layer self) x) (activation_function self)"

definition gate :: "HighwayMLP \<Rightarrow> mat \<Rightarrow> error + mat" where
  "gate self x = and_then (Linear_forward (gate_layer self) x) (gate_activation self)"

section \<open>Squeeze-and-Excitation module\<close>

text \<open>
  \<^verbatim>\<open>nn.Conv1d(i, o, kernel_size=1, padding=0)\<close> as \<^verbatim>\<open>SEModule\<close> builds it (stride 1,
  one group, with bias): on an input of shape \<open>(batch, i, length)\<close> the output at
  \<open>(n, c, t)\<close> is \<open>conv_bias[c] + (\<Sum>k. conv_weight[c][k] * x[n][k][t])\<close>. The kernel axis
  of the weight, of size 1, is left out. The framework refuses an input of length 0.
\<close>

record Conv1d_k1 =
  in_channels :: nat
  out_channels :: nat
  conv_weight :: mat
  conv_bias :: vec

definition Conv1d_k1_inst :: "nat \<Rightarrow> nat \<Rightarrow> Conv1d_k1 \<Rightarrow> bool" where
  "Conv1d_k1_inst i out c =
     (in_channels c = i \<and> out_channels c = out \<and> is_mat out i (conv_weight c) \<and>
      length (conv_bias c) = out)"

definition Conv1d_k1_forward :: "Conv1d_k1 \<Rightarrow> ten3 \<Rightarrow> error + ten3" where
  "Conv1d_k1_forward c x =
     (if list_all (\<lambda>xb. length xb = in_channels c \<and> 0 < ncols xb \<and>
                         list_all (\<lambda>r. length r = ncols xb) xb) x
      then Inr (map (\<lambda>xb. map2 (\<lambda>w c0. map (\<lambda>t. dot w (column xb t) + c0) [0..<ncols xb])
                               (conv_weight c) (conv_bias c)) x)
      else Inl FrameworkError)"

text \<open>
  \<^verbatim>\<open>nn.AdaptiveAvgPool1d(1)\<close>: the mean of every channel; of a channel of length 0
  it is \<^verbatim>\<open>nan\<close>. \<^verbatim>\<open>nn.ReLU(inplace=True)\<close> and \<^verbatim>\<open>nn.Sigmoid()\<close> work on every
  element. The in-place ReLU overwrites its argument, which in this file is always a
  tensor the preceding layer has just created, never the input of the module.
\<close>

definition AdaptiveAvgPool1d_1 :: "ten3 \<Rightarrow> error + ten3" where
  "AdaptiveAvgPool1d_1 x =
     (if list_all (list_all (\<lambda>r. r \<noteq> [])) x
      then Inr (map (map (\<lambda>r. [sum_list r / real (length r)])) x)
      else Inl NonFinite)"

definition ReLU_forward :: "ten3 \<Rightarrow> ten3" where
  "ReLU_forward x = map (map (map relu)) x"

definition Sigmoid_forward :: "ten3 \<Rightarrow> ten3" where
  "Sigmoid_forward x = map (map (map sigmoid)) x"

text \<open>\<^verbatim>\<open>class SEModule\<close>, for \<open>channels > reduction\<close> (the assertion of its constructor).\<close>

record SEModule =
  fc1 :: Conv1d_k1
  fc2 :: Conv1d_k1

definition SEModule_inst :: "nat \<Rightarrow> nat \<Rightarrow> SEModule \<Rightarrow> bool" where
  "SEModule_inst channels reduction self =
     (reduction < channels \<and> 0 < reduction \<and>
      Conv1d_k1_inst channels (channels div reduction) (fc1 self) \<and>
      Conv1d_k1_inst (channels div reduction) channels (fc2 self))"

definition SEModule_forward :: "SEModule \<Rightarrow> ten3 \<Rightarrow> error + ten3" where
  "SEModule_forward self x =
     (let module_input = x in
      and_then (AdaptiveAvgPool1d_1 x) (\<lambda>x1.
      and_then (Conv1d_k1_forward (fc1 self) x1) (\<lambda>x2.
      let x3 = ReLU_forward x2 in
      and_then (Conv1d_k1_forward (fc2 self) x3) (\<lambda>x4.
      let x5 = Sigmoid_forward x4 in
      bten3 mul module_input x5))))"

text \<open>
  The gate of the specification, \<open>sigmoid (fc2 (relu (fc1 (avg_pool x))))\<close>, and the
  channel-wise rescaling of \<open>x\<close> by a gate \<open>g\<close> of shape \<open>(batch, channels, 1)\<close>.
\<close>

definition SE_gate :: "SEModule \<Rightarrow> ten3 \<Rightarrow> error + ten3" where
  "SE_gate self x =
     and_then (AdaptiveAvgPool1d_1 x) (\<lambda>p.
     and_then (Conv1d_k1_forward (fc1 self) p) (\<lambda>h.
     and_then (Conv1d_k1_forward (fc2 self) (ReLU_forward h)) (\<lambda>z. Inr (Sigmoid_forward z))))"

definition rescale :: "ten3 \<Rightarrow> ten3 \<Rightarrow> ten3" where
  "rescale x g =
     map (\<lambda>n. map (\<lambda>c. map (\<lambda>v. v * g ! n ! c ! 0) (x ! n ! c)) [0..<length (x ! n)])
       [0..<length x]"

section \<open>CBAM and SCSE modules\<close>

text \<open>
  \<^verbatim>\<open>nn.Conv1d(i, o, kernel_size=k, stride=1, padding=p)\<close> with one group and a bias, as
  \<^verbatim>\<open>CBAM_Module\<close> builds \<open>conv_after_concat\<close>: the input is padded with \<open>p\<close> zeros on
  both sides, and the output at \<open>(n, c, t)\<close> is
  \<open>kbias[c] + (\<Sum>i j. kernel[c][i][j] * padded[n][i][t + j])\<close>, for \<open>t\<close> up to
  \<open>length + 2 * p - k\<close>. The framework refuses an input shorter than the kernel.
\<close>

record Conv1d_pad =
  cin :: nat
  cout :: nat
  kernel_size :: nat
  padding :: nat
  kernel :: ten3
  kbias :: vec

definition pad :: "nat \<Rightarrow> vec \<Rightarrow> vec" where
  "pad p r = replicate p 0 @ r @ replicate p 0"

definition Conv1d_pad_forward :: "Conv1d_pad \<Rightarrow> ten3 \<Rightarrow> error + ten3" where
  "Conv1d_pad_forward c x =
     (if list_all (\<lambda>xb. length xb = cin c \<and> list_all (\<lambda>r. length r = ncols xb) xb \<and>
                         kernel_size c \<le> ncols xb + 2 * padding c) x
      then Inr (map (\<lambda>xb.
             map2 (\<lambda>w c0.
               map (\<lambda>t. sum_list (map2 (\<lambda>wr xr.
                            dot wr (take (kernel_size c) (drop t (pad (padding c) xr)))) w xb)
                        + c0)
                 [0..<ncols xb + 2 * padding c - kernel_size c + 1])
               (kernel c) (kbias c)) x)
      else Inl FrameworkError)"

text \<open>
  \<^verbatim>\<open>nn.AdaptiveMaxPool1d(1)\<close>: the maximum of every channel; the framework refuses a
  channel of length 0. \<^verbatim>\<open>torch.mean(x, 1, keepdim=True)\<close> and
  \<^verbatim>\<open>torch.max(x, 1, keepdim=True)\<close>: the mean and the maximum over the channels, at every
  position; over no channel the mean is \<^verbatim>\<open>nan\<close> and the maximum is refused.
  \<^verbatim>\<open>torch.cat((a, m), 1)\<close> puts the channels of \<open>m\<close> after those of \<open>a\<close>.
\<close>

definition maximum :: "vec \<Rightarrow> real" where
  "maximum r = fold max (tl r) (hd r)"

definition AdaptiveMaxPool1d_1 :: "ten3 \<Rightarrow> error + ten3" where
  "AdaptiveMaxPool1d_1 x =
     (if list_all (list_all (\<lambda>r. r \<noteq> [])) x
      then Inr (map (map (\<lambda>r. [maximum r])) x)
      else Inl FrameworkError)"

definition mean_dim1 :: "ten3 \<Rightarrow> error + ten3" where
  "mean_dim1 x =
     (if list_all (\<lambda>xb. xb \<noteq> []) x
      then Inr (map (\<lambda>xb. [map (\<lambda>t. sum_list (column xb t) / real (length xb)) [0..<ncols xb]])
                 x)
      else Inl NonFinite)"

definition max_dim1 :: "ten3 \<Rightarrow> error + ten3" where
  "max_dim1 x =
     (if list_all (\<lambda>xb. xb \<noteq> []) x
      then Inr (map (\<lambda>xb. [map (\<lambda>t. maximum (column xb t)) [0..<ncols xb]]) x)
      else Inl FrameworkError)"

definition cat_dim1 :: "ten3 \<Rightarrow> ten3 \<Rightarrow> error + ten3" where
  "cat_dim1 a m =
     (if length a = length m \<and> list_all (\<lambda>p. ncols (fst p) = ncols (snd p)) (zip a m)
      then Inr (map2 (@) a m)
      else Inl FrameworkError)"

text \<open>\<^verbatim>\<open>class CBAM_Module\<close>: channel attention, then spatial attention.\<close>

record CBAM_Module =
  cbam_fc1 :: Conv1d_k1
  cbam_fc2 :: Conv1d_k1
  conv_after_concat :: Conv1d_pad

definition CBAM_Module_forward :: "CBAM_Module \<Rightarrow> ten3 \<Rightarrow> error + ten3" where
  "CBAM_Module_forward self x =
     (let module_input = x in
      and_then (AdaptiveAvgPool1d_1 x) (\<lambda>avg0.
      and_then (AdaptiveMaxPool1d_1 x) (\<lambda>mx0.
      and_then (Conv1d_k1_forward (cbam_fc1 self) avg0) (\<lambda>avg1.
      and_then (Conv1d_k1_forward (cbam_fc1 self) mx0) (\<lambda>mx1.
      let avg2 = ReLU_forward avg1;
          mx2 = ReLU_forward mx1 in
      and_then (Conv1d_k1_forward (cbam_fc2 self) avg2) (\<lambda>avg3.
      and_then (Conv1d_k1_forward (cbam_fc2 self) mx2) (\<lambda>mx3.
      and_then (bten3 add avg3 mx3) (\<lambda>x1.
      let x2 = Sigmoid_forward x1 in
      and_then (bten3 mul module_input x2) (\<lambda>x3.
      let module_input = x3 in
      and_then (mean_dim1 x3) (\<lambda>avg.
      and_then (max_dim1 x3) (\<lambda>mx.
      and_then (cat_dim1 avg mx) (\<lambda>x4.
      and_then (Conv1d_pad_forward (conv_after_concat self) x4) (\<lambda>x5.
      let x6 = Sigmoid_forward x5 in
      bten3 mul module_input x6)))))))))))))"

text \<open>
  \<^verbatim>\<open>class SCSEModule\<close>: \<open>x * cSE(x) + x * sSE(x)\<close>, where \<open>cSE\<close> is the sequence pooling,
  convolution, ReLU, convolution, sigmoid and \<open>sSE\<close> is a convolution and a sigmoid.
\<close>

record SCSEModule =
  cSE_conv1 :: Conv1d_k1
  cSE_conv2 :: Conv1d_k1
  sSE_conv :: Conv1d_k1

definition SCSEModule_forward :: "SCSEModule \<Rightarrow> ten3 \<Rightarrow> error + ten3" where
  "SCSEModule_forward self x =
     and_then (AdaptiveAvgPool1d_1 x) (\<lambda>c0.
     and_then (Conv1d_k1_forward (cSE_conv1 self) c0) (\<lambda>c1.
     let c2 = ReLU_forward c1 in
     and_then (Conv1d_k1_forward (cSE_conv2 self) c2) (\<lambda>c3.
     let c4 = Sigmoid_forward c3 in
     and_then (bten3 mul x c4) (\<lambda>left.
     and_then (Conv1d_k1_forward (sSE_conv self) x) (\<lambda>s0.
     let s1 = Sigmoid_forward s0 in
     and_then (bten3 mul x s1) (\<lambda>right.
     bten3 add left right))))))"

section \<open>Residual blocks\<close>

text \<open>
  The convolutions, batch normalisations, pooling and recurrent layers are the
  framework's own: a layer is a function on tensors that may fail. A block calls the
  layers its constructor stored, whatever they compute.
\<close>

type_synonym layer = "ten3 \<Rightarrow> error + ten3"

text \<open>
  \<^verbatim>\<open>class Bottleneck\<close>, the base class of \<^verbatim>\<open>SEBottleneck\<close>, \<^verbatim>\<open>SEResNetBottleneck\<close> and
  \<^verbatim>\<open>SEResNeXtBottleneck\<close>; none of the three overrides \<^verbatim>\<open>forward\<close>. \<open>self.relu\<close> is
  \<^verbatim>\<open>nn.ReLU(inplace=True)\<close> in all of them.
\<close>

record Bottleneck =
  conv1 :: layer
  bn1 :: layer
  conv2 :: layer
  bn2 :: layer
  conv3 :: layer
  bn3 :: layer
  se_module :: SEModule
  downsample :: "layer option"

definition Bottleneck_forward :: "Bottleneck \<Rightarrow> ten3 \<Rightarrow> error + ten3" where
  "Bottleneck_forward self x =
     (let residual = x in
      and_then (conv1 self x) (\<lambda>out1.
      and_then (bn1 self out1) (\<lambda>out2.
      let out3 = ReLU_forward out2 in
      and_then (conv2 self out3) (\<lambda>out4.
      and_then (bn2 self out4) (\<lambda>out5.
      let out6 = ReLU_forward out5 in
      and_then (conv3 self out6) (\<lambda>out7.
      and_then (bn3 self out7) (\<lambda>out8.
      and_then (case downsample self of None \<Rightarrow> Inr residual | Some d \<Rightarrow> d x) (\<lambda>residual.
      and_then (SEModule_forward (se_module self) out8) (\<lambda>se.
      and_then (bten3 add se residual) (\<lambda>out9.
      Inr (ReLU_forward out9)))))))))))"

text \<open>
  The block as the specification describes it: three stacked convolutions, each followed
  by its batch normalisation, and a skip connection.
\<close>

definition followed_by :: "('a \<Rightarrow> error + 'b) \<Rightarrow> ('b \<Rightarrow> error + 'c) \<Rightarrow> 'a \<Rightarrow> error + 'c" where
  "followed_by f g x = and_then (f x) g"

definition pure_layer :: "('a \<Rightarrow> 'b) \<Rightarrow> 'a \<Rightarrow> error + 'b" where
  "pure_layer f x = Inr (f x)"

definition main_path :: "Bottleneck \<Rightarrow> layer" where
  "main_path self =
     followed_by (conv1 self) (followed_by (bn1 self) (followed_by (pure_layer ReLU_forward)
    (followed_by (conv2 self) (followed_by (bn2 self) (followed_by (pure_layer ReLU_forward)
    (followed_by (conv3 self) (bn3 self)))))))"

definition skip_connection :: "Bottleneck \<Rightarrow> layer" where
  "skip_connection self x = (case downsample self of None \<Rightarrow> Inr x | Some d \<Rightarrow> d x)"

definition residual_sum :: "Bottleneck \<Rightarrow> layer" where
  "residual_sum self x =
     and_then (main_path self x) (\<lambda>m.
     and_then (skip_connection self x) (\<lambda>residual.
     and_then (SEModule_forward (se_module self) m) (\<lambda>se.
     and_then (bten3 add se residual) (pure_layer ReLU_forward))))"

text \<open>\<^verbatim>\<open>class SEResNetBlock\<close>: two convolutions, with a \<^verbatim>\<open>forward\<close> of its own.\<close>

record SEResNetBlock =
  blk_conv1 :: layer
  blk_bn1 :: layer
  blk_conv2 :: layer
  blk_bn2 :: layer
  blk_se_module :: SEModule
  blk_downsample :: "layer option"

definition SEResNetBlock_forward :: "SEResNetBlock \<Rightarrow> ten3 \<Rightarrow> error + ten3" where
  "SEResNetBlock_forward self x =
     (let residual = x in
      and_then (blk_conv1 self x) (\<lambda>out1.
      and_then (blk_bn1 self out1) (\<lambda>out2.
      let out3 = ReLU_forward out2 in
      and_then (blk_conv2 self out3) (\<lambda>out4.
      and_then (blk_bn2 self out4) (\<lambda>out5.
      let out6 = ReLU_forward out5 in
      and_then (case blk_downsample self of None \<Rightarrow> Inr residual | Some d \<Rightarrow> d x) (\<lambda>residual.
      and_then (SEModule_forward (blk_se_module self) out6) (\<lambda>se.
      and_then (bten3 add se residual) (\<lambda>out7.
      Inr (ReLU_forward out7)))))))))"

section \<open>The network\<close>

text \<open>\<^verbatim>\<open>nn.Sequential\<close>: the layers one after the other.\<close>

fun Sequential_forward :: "layer list \<Rightarrow> layer" where
  "Sequential_forward [] x = Inr x"
| "Sequential_forward (f # fs) x = and_then (f x) (Sequential_forward fs)"

text \<open>
  \<^verbatim>\<open>class SENet\<close> after \<^verbatim>\<open>__init__\<close>. \<open>layer0\<close> to \<open>layer4\<close> are \<^verbatim>\<open>nn.Sequential\<close>
  containers (of framework layers, of blocks); \<open>gru\<close> and \<open>lstm\<close> return the output
  sequence and the final state; \<open>avg_pool\<close> is the \<^verbatim>\<open>SelectAdaptivePool1d\<close> of
  \<^verbatim>\<open>models/utils.py\<close>, which is not among the source files.
\<close>

record SENet =
  inplanes :: int
  num_classes :: int
  drop_rate :: real
  layer0 :: "layer list"
  layer1 :: "layer list"
  layer2 :: "layer list"
  layer3 :: "layer list"
  layer4 :: "layer list"
  avg_pool :: layer
  num_features :: int
  highway_number :: int
  highway_layers :: "HighwayMLP list"
  last_linear :: Linear
  lstm :: "ten3 \<Rightarrow> error + ten3 \<times> ten3 \<times> ten3"
  gru :: "ten3 \<Rightarrow> error + ten3 \<times> ten3"
  attention_layer :: Attention

definition forward_features :: "SENet \<Rightarrow> ten3 \<Rightarrow> error + ten3" where
  "forward_features self x =
     and_then (Sequential_forward (layer0 self) x) (\<lambda>x.
     and_then (Sequential_forward (layer1 self) x) (\<lambda>x.
     and_then (Sequential_forward (layer2 self) x) (\<lambda>x.
     and_then (Sequential_forward (layer3 self) x) (\<lambda>x.
     and_then (Sequential_forward (layer4 self) x) (\<lambda>x.
     Inr x)))))"

definition logits :: "SENet \<Rightarrow> ten3 \<Rightarrow> error + mat" where
  "logits self x =
     and_then (gru self x) (\<lambda>p.
     let x = fst p in
     and_then (Attention_forward (attention_layer self) x None) (\<lambda>x.
     and_then (Linear_forward (last_linear self) x) (\<lambda>x.
     Inr x)))"

definition SENet_forward :: "SENet \<Rightarrow> ten3 \<Rightarrow> error + mat" where
  "SENet_forward self x =
     and_then (forward_features self x) (\<lambda>x.
     and_then (logits self x) (\<lambda>x.
     Inr x))"

text \<open>
  The topology of the specification:
  \<open>last_linear (attention_layer (first output of gru (layer4 (layer3 (layer2 (layer1 (layer0 x)))))))\<close>.
\<close>

definition topology :: "SENet \<Rightarrow> ten3 \<Rightarrow> error + mat" where
  "topology self =
     followed_by (Sequential_forward (layer0 self))
    (followed_by (Sequential_forward (layer1 self))
    (followed_by (Sequential_forward (layer2 self))
    (followed_by (Sequential_forward (layer3 self))
    (followed_by (Sequential_forward (layer4 self))
    (followed_by (gru self)
    (followed_by (pure_layer fst)
    (followed_by (\<lambda>x. Attention_forward (attention_layer self) x None)
                 (Linear_forward (last_linear self)))))))))"

text \<open>
  The layers and callables of the framework that a module holds and calls in its
  \<^verbatim>\<open>forward\<close>, and what it means that one of them never fails with the
  \<open>AssertionError\<close> of the repository.
\<close>

definition raises_no_assertion :: "('a \<Rightarrow> error + 'b) \<Rightarrow> bool" where
  "raises_no_assertion f = (\<forall>t. f t \<noteq> Inl AssertionError)"

definition HighwayMLP_callables :: "HighwayMLP \<Rightarrow> (mat \<Rightarrow> error + mat) list" where
  "HighwayMLP_callables self = [activation_function self, gate_activation self]"

definition Bottleneck_layers :: "Bottleneck \<Rightarrow> layer list" where
  "Bottleneck_layers self =
     [conv1 self, bn1 self, conv2 self, bn2 self, conv3 self, bn3 self]
     @ (case downsample self of None \<Rightarrow> [] | Some d \<Rightarrow> [d])"

definition SEResNetBlock_layers :: "SEResNetBlock \<Rightarrow> layer list" where
  "SEResNetBlock_layers self =
     [blk_conv1 self, blk_bn1 self, blk_conv2 self, blk_bn2 self]
     @ (case blk_downsample self of None \<Rightarrow> [] | Some d \<Rightarrow> [d])"

definition SENet_layers :: "SENet \<Rightarrow> layer list" where
  "SENet_layers self = layer0 self @ layer1 self @ layer2 self @ layer3 self @ layer4 self"

section \<open>Lemmas on the tensor operations and the attention layer\<close>

lemma and_then_Inr: "and_then (Inr v) f = f v"
  by (simp add: and_then_def)

lemma and_then_Inl: "and_then (Inl e) f = Inl e"
  by (simp add: and_then_def)

lemma sequence_Inr: "sequence (map (\<lambda>x. Inr (f x)) xs) = Inr (map f xs)"
  by (induction xs) (simp_all add: and_then_Inr)

lemma sequence_cong_Inr:
  "(\<And>x. x \<in> set xs \<Longrightarrow> g x = Inr (f x)) \<Longrightarrow> sequence (map g xs) = Inr (map f xs)"
  by (induction xs) (simp_all add: and_then_Inr)

lemma chunks_append:
  assumes "length r = n" and "0 < n"
  shows "chunks n (r @ xs) = r # chunks n xs"
proof -
  have d: "length (r @ xs) div n = Suc (length xs div n)"
    using assms by simp
  have u: "[0..<Suc (length xs div n)] = 0 # map Suc [0..<length xs div n]"
    by (simp add: upt_conv_Cons map_Suc_upt del: upt_Suc)
  show ?thesis
    unfolding chunks_def d u using assms by (simp add: comp_def)
qed

lemma chunks_concat:
  "0 < n \<Longrightarrow> list_all (\<lambda>r. length r = n) rows \<Longrightarrow> chunks n (concat rows) = rows"
proof (induction rows)
  case Nil
  then show ?case by (simp add: chunks_def)
next
  case (Cons r rows)
  then show ?case by (simp add: chunks_append)
qed

lemma length_concat_rows:
  "list_all (\<lambda>r. length r = n) rows \<Longrightarrow> length (concat rows) = length rows * n"
  by (induction rows) simp_all

lemma view_rows_concat:
  "0 < n \<Longrightarrow> list_all (\<lambda>r. length r = n) rows \<Longrightarrow> view_rows n (concat rows) = Inr rows"
  by (simp add: view_rows_def chunks_concat length_concat_rows)

lemma blist_singleton: "blist f xs [y] = sequence (map (\<lambda>x. f x y) xs)"
proof (cases "length xs = 1")
  case True
  then obtain x where "xs = [x]" by (cases xs) auto
  then show ?thesis by (simp add: blist_def)
next
  case False
  then show ?thesis by (simp add: blist_def)
qed

lemma blist_same:
  "length xs = length ys \<Longrightarrow> blist f xs ys = sequence (map2 f xs ys)"
  by (simp add: blist_def)

lemma map2_map_same: "map2 f xs (map g xs) = map (\<lambda>x. f x (g x)) xs"
  by (induction xs) simp_all

lemma bvec_add_same:
  "length r = length c \<Longrightarrow> bvec add r c = Inr (map2 (+) r c)"
proof -
  assume l: "length r = length c"
  have "sequence (map2 add r c) = sequence (map (\<lambda>p. Inr (fst p + snd p)) (zip r c))"
    by (simp add: add_def case_prod_unfold)
  also have "\<dots> = Inr (map (\<lambda>p. fst p + snd p) (zip r c))"
    by (rule sequence_Inr)
  finally show ?thesis using l by (simp add: bvec_def blist_same case_prod_unfold)
qed

lemma bvec_mul_singleton: "bvec mul r [v] = Inr (map (\<lambda>u. u * v) r)"
  by (simp add: bvec_def blist_singleton mul_def sequence_Inr)

lemma bvec_divide_singleton:
  "v \<noteq> 0 \<Longrightarrow> bvec divide_t r [v] = Inr (map (\<lambda>u. u / v) r)"
  by (simp add: bvec_def blist_singleton divide_t_def sequence_Inr)

lemma bmat_add_row:
  assumes "list_all (\<lambda>r. length r = length c) m"
  shows "bmat add m [c] = Inr (map (\<lambda>r. map2 (+) r c) m)"
proof -
  have "sequence (map (\<lambda>r. bvec add r c) m) = Inr (map (\<lambda>r. map2 (+) r c) m)"
    using assms by (intro sequence_cong_Inr bvec_add_same) (simp add: list_all_iff)
  then show ?thesis by (simp add: bmat_def blist_singleton)
qed

lemma bmat_divide_sum:
  assumes "list_all (\<lambda>r. sum_list r \<noteq> 0) m"
  shows "bmat divide_t m (sum_keepdim m) = Inr (map (\<lambda>r. map (\<lambda>u. u / sum_list r) r) m)"
proof -
  have "sequence (map (\<lambda>r. bvec divide_t r [sum_list r]) m)
        = Inr (map (\<lambda>r. map (\<lambda>u. u / sum_list r) r) m)"
    using assms by (intro sequence_cong_Inr bvec_divide_singleton) (simp add: list_all_iff)
  then show ?thesis
    by (simp add: bmat_def sum_keepdim_def blist_same map2_map_same)
qed

lemma bmat_mul_unsqueezed:
  assumes "length m = length a"
  shows "bmat mul m (map (\<lambda>v. [v]) a) = Inr (map2 (\<lambda>r v. map (\<lambda>u. u * v) r) m a)"
proof -
  have "sequence (map2 (bvec mul) m (map (\<lambda>v. [v]) a))
        = sequence (map (\<lambda>p. Inr (map (\<lambda>u. u * snd p) (fst p))) (zip m a))"
    by (simp add: zip_map2 case_prod_unfold bvec_mul_singleton comp_def)
  also have "\<dots> = Inr (map (\<lambda>p. map (\<lambda>u. u * snd p) (fst p)) (zip m a))"
    by (rule sequence_Inr)
  finally show ?thesis using assms by (simp add: bmat_def blist_same case_prod_unfold)
qed

lemma bten3_mul_unsqueezed:
  assumes "length x = length a" and "list_all (\<lambda>p. length (fst p) = length (snd p)) (zip x a)"
  shows "bten3 mul x (unsqueeze_last a)
         = Inr (map2 (\<lambda>m ar. map2 (\<lambda>r v. map (\<lambda>u. u * v) r) m ar) x a)"
proof -
  have "sequence (map2 (bmat mul) x (map (map (\<lambda>v. [v])) a))
        = sequence (map (\<lambda>p. bmat mul (fst p) (map (\<lambda>v. [v]) (snd p))) (zip x a))"
    by (simp add: zip_map2 case_prod_unfold comp_def)
  also have "\<dots> = Inr (map (\<lambda>p. map2 (\<lambda>r v. map (\<lambda>u. u * v) r) (fst p) (snd p)) (zip x a))"
    using assms(2) by (intro sequence_cong_Inr bmat_mul_unsqueezed) (simp add: list_all_iff)
  finally show ?thesis
    using assms(1) by (simp add: bten3_def unsqueeze_last_def blist_same case_prod_unfold)
qed

lemma sum_list_upt_lessThan: "sum_list (map f [0..<n]) = (\<Sum>i<n. f i)"
  by (simp add: interv_sum_list_conv_sum_set_nat atLeast0LessThan)

lemma sum_list_pos_real:
  "r \<noteq> [] \<Longrightarrow> list_all (\<lambda>v. 0 < v) r \<Longrightarrow> 0 < sum_list (r :: real list)"
proof (induction r)
  case Nil
  then show ?case by simp
next
  case (Cons v r)
  then show ?case by (cases r) (auto intro: add_pos_pos)
qed

lemma row_scores:
  assumes "length xb = step_dim self" and "length (b self) = step_dim self"
  shows "map (\<lambda>v. exp (tanh v)) (map2 (+) (map (\<lambda>r. dot r (column (weight self) 0)) xb) (b self))
         = map (score self xb) [0..<step_dim self]"
  using assms by (intro nth_equalityI) (simp_all add: score_def)

lemma score_pos: "0 < score self xb t"
  by (simp add: score_def)

lemma sum_scores_pos:
  "0 < step_dim self \<Longrightarrow> 0 < sum_list (map (score self xb) [0..<step_dim self])"
  by (intro sum_list_pos_real) (simp_all add: list_all_iff score_pos)

lemma mm_column:
  assumes "list_all (\<lambda>r. length r = f) a" and "is_mat f 1 w" and "0 < f"
  shows "mm a w = Inr (map (\<lambda>r. [dot r (column w 0)]) a)"
proof -
  from assms(2,3) obtain r0 rs where w: "w = r0 # rs" and "length r0 = 1"
    by (cases w) (auto simp: is_mat_def)
  then have n: "ncols w = 1" by (simp add: ncols_def)
  have "list_all (\<lambda>r. length r = ncols w) w"
    using assms(2) by (simp add: n is_mat_def)
  moreover have "list_all (\<lambda>r. length r = length w) a"
    using assms(1,2) by (simp add: is_mat_def)
  ultimately show ?thesis by (simp add: mm_def n)
qed

lemma concat_singletons: "concat (map (\<lambda>r. [g r]) ys) = map g ys"
  by (induction ys) simp_all

lemma is_ten3_rows:
  "is_ten3 n s f x \<Longrightarrow> list_all (\<lambda>r. length r = f) (concat x)"
  by (auto simp: is_ten3_def is_mat_def list_all_iff)

lemma Attention_coefficients_rows:
  assumes inst: "Attention_inst f s self" and f: "0 < f" and s: "0 < s"
    and x: "is_ten3 n s f x"
  shows "Attention_coefficients self x None
         = Inr (map (\<lambda>xb. map (coefficient self xb) [0..<s]) x)"
proof -
  let ?g = "\<lambda>r. dot r (column (weight self) 0)"
  from inst have fd: "feature_dim self = f" and sd: "step_dim self = s"
    and bs: "bias self" and w: "is_mat f 1 (weight self)" and lb: "length (b self) = s"
    by (simp_all add: Attention_inst_def)
  have lx: "list_all (\<lambda>m. length m = s) x"
    using x by (auto simp: is_ten3_def is_mat_def list_all_iff)
  have v1: "view_rows f (concat (concat x)) = Inr (concat x)"
    using f x by (intro view_rows_concat is_ten3_rows)
  have m1: "mm (concat x) (weight self) = Inr (map (\<lambda>r. [?g r]) (concat x))"
    using x w f by (intro mm_column is_ten3_rows)
  have e: "concat (map (\<lambda>r. [?g r]) (concat x)) = concat (map (map ?g) x)"
    by (subst concat_singletons) (simp only: map_concat)
  have "view_rows s (concat (map (map ?g) x)) = Inr (map (map ?g) x)"
    using s lx by (intro view_rows_concat) (simp_all add: list_all_iff)
  then have v2: "view_rows s (concat (map (\<lambda>r. [?g r]) (concat x))) = Inr (map (map ?g) x)"
    by (simp only: e)
  have a1: "bmat add (map (map ?g) x) [b self]
            = Inr (map (\<lambda>r. map2 (+) r (b self)) (map (map ?g) x))"
    using lx lb by (intro bmat_add_row) (simp add: list_all_iff)
  have sc: "map (map exp) (map (map tanh) (map (\<lambda>r. map2 (+) r (b self)) (map (map ?g) x)))
            = map (\<lambda>xb. map (score self xb) [0..<s]) x"
  proof -
    have "\<And>xb. xb \<in> set x \<Longrightarrow>
            map exp (map tanh (map2 (+) (map ?g xb) (b self))) = map (score self xb) [0..<s]"
      using row_scores [of _ self] lx lb sd by (simp add: list_all_iff comp_def)
    then show ?thesis by simp
  qed
  have nz: "list_all (\<lambda>r. sum_list r \<noteq> 0) (map (\<lambda>xb. map (score self xb) [0..<s]) x)"
  proof -
    have "\<And>xb. sum_list (map (score self xb) [0..<s]) \<noteq> 0"
      using sum_scores_pos [of self] s sd by (simp add: less_imp_neq [THEN not_sym])
    then show ?thesis by (simp add: list_all_iff)
  qed
  have d: "bmat divide_t (map (\<lambda>xb. map (score self xb) [0..<s]) x)
             (sum_keepdim (map (\<lambda>xb. map (score self xb) [0..<s]) x))
           = Inr (map (\<lambda>r. map (\<lambda>u. u / sum_list r) r) (map (\<lambda>xb. map (score self xb) [0..<s]) x))"
    using nz by (rule bmat_divide_sum)
  have fin: "map (map (\<lambda>v. v + 1 / 10 ^ 10))
               (map (\<lambda>r. map (\<lambda>u. u / sum_list r) r) (map (\<lambda>xb. map (score self xb) [0..<s]) x))
             = map (\<lambda>xb. map (coefficient self xb) [0..<s]) x"
    by (simp add: coefficient_def sd sum_list_upt_lessThan comp_def)
  show ?thesis
    unfolding Attention_coefficients_def fd sd
    by (simp only: v1 m1 v2 a1 sc d fin and_then_Inr bs if_True Let_def option.case)
qed

lemma map2_nth_upt:
  "length xs = n \<Longrightarrow> map2 h xs (map c [0..<n]) = map (\<lambda>t. h (xs ! t) (c t)) [0..<n]"
  by (intro nth_equalityI) simp_all

lemma weighted_rows_sum:
  assumes xb: "is_mat s f xb" and s: "0 < s" and sd: "step_dim self = s"
    and fd: "feature_dim self = f"
  shows "(\<lambda>m. map (\<lambda>j. sum_list (column m j)) [0..<ncols m])
           (map2 (\<lambda>r v. map (\<lambda>u. u * v) r) xb (map (coefficient self xb) [0..<s]))
         = weighted_sum self xb"
proof -
  let ?c = "coefficient self xb"
  let ?m = "map (\<lambda>t. map (\<lambda>u. u * ?c t) (xb ! t)) [0..<s]"
  from xb have lx: "length xb = s" and lr: "\<And>t. t < s \<Longrightarrow> length (xb ! t) = f"
    by (auto simp: is_mat_def list_all_length)
  have m: "map2 (\<lambda>r v. map (\<lambda>u. u * v) r) xb (map ?c [0..<s]) = ?m"
    using lx by (rule map2_nth_upt)
  have n: "ncols ?m = f"
    using s lr [of 0] by (simp add: ncols_def upt_conv_Cons)
  have col: "\<And>j. j < f \<Longrightarrow> sum_list (column ?m j) = (\<Sum>t<s. ?c t * xb ! t ! j)"
  proof -
    fix j assume j: "j < f"
    have "column ?m j = map (\<lambda>t. ?c t * xb ! t ! j) [0..<s]"
      using lr j by (simp add: column_def mult.commute)
    then show "sum_list (column ?m j) = (\<Sum>t<s. ?c t * xb ! t ! j)"
      by (simp only: sum_list_upt_lessThan)
  qed
  show ?thesis
    unfolding m n weighted_sum_def sd fd using col by simp
qed

lemma Attention_forward_rows:
  assumes inst: "Attention_inst f s self" and f: "0 < f" and s: "0 < s"
    and x: "is_ten3 n s f x"
  shows "Attention_forward self x None = Inr (map (weighted_sum self) x)"
proof -
  let ?a = "map (\<lambda>xb. map (coefficient self xb) [0..<s]) x"
  from inst have fd: "feature_dim self = f" and sd: "step_dim self = s"
    by (simp_all add: Attention_inst_def)
  have xm: "\<And>xb. xb \<in> set x \<Longrightarrow> is_mat s f xb"
    using x by (simp add: is_ten3_def list_all_iff)
  have c: "Attention_coefficients self x None = Inr ?a"
    using assms by (rule Attention_coefficients_rows)
  have z: "list_all (\<lambda>p. length (fst p) = length (snd p)) (zip x ?a)"
    using xm by (auto simp: list_all_iff zip_map2 is_mat_def dest: set_zip_leftD)
  have w: "bten3 mul x (unsqueeze_last ?a)
           = Inr (map2 (\<lambda>m ar. map2 (\<lambda>r v. map (\<lambda>u. u * v) r) m ar) x ?a)"
    using z by (intro bten3_mul_unsqueezed) simp_all
  have "sum_dim1 (map2 (\<lambda>m ar. map2 (\<lambda>r v. map (\<lambda>u. u * v) r) m ar) x ?a)
        = map (weighted_sum self) x"
    unfolding sum_dim1_def map2_map_same map_map comp_def
    using weighted_rows_sum [OF xm s sd fd] by simp
  then show ?thesis
    unfolding Attention_forward_def by (simp only: c w and_then_Inr)
qed

lemma weighted_sum_shape:
  "feature_dim self = f \<Longrightarrow> is_mat (length x) f (map (weighted_sum self) x)"
  by (simp add: is_mat_def weighted_sum_def list_all_iff)

lemma chunks_lengths:
  assumes "0 < n"
  shows "list_all (\<lambda>r. length r = n) (chunks n xs)"
proof -
  have "\<And>i. i < length xs div n \<Longrightarrow> i * n + n \<le> length xs"
  proof -
    fix i assume "i < length xs div n"
    then have "Suc i * n \<le> (length xs div n) * n"
      by (intro mult_le_mono1) simp
    also have "\<dots> \<le> length xs" by simp
    finally show "i * n + n \<le> length xs" by (simp add: add.commute)
  qed
  then have "\<And>i. i < length xs div n \<Longrightarrow> min (length xs - i * n) n = n"
    by (metis add_diff_cancel_left' diff_le_mono min.absorb2)
  then show ?thesis by (simp add: chunks_def list_all_iff)
qed

lemma view_rows_lengths:
  "view_rows n flat = Inr m \<Longrightarrow> 0 < n \<and> list_all (\<lambda>r. length r = n) m"
  by (auto simp: view_rows_def chunks_lengths split: if_splits)

lemma and_then_InrD:
  "and_then r g = Inr y \<Longrightarrow> \<exists>v. r = Inr v \<and> g v = Inr y"
  by (cases r) (simp_all add: and_then_def)

section \<open>Lemmas on element-wise operations and Highway gating\<close>

lemma sequence_map2_Inr:
  "(\<And>u v. h u v = Inr (f u v)) \<Longrightarrow> sequence (map2 h xs ys) = Inr (map2 f xs ys)"
proof -
  assume h: "\<And>u v. h u v = Inr (f u v)"
  have "map2 h xs ys = map (\<lambda>p. Inr (case p of (u, v) \<Rightarrow> f u v)) (zip xs ys)"
    by (simp add: h case_prod_unfold)
  then show ?thesis by (simp only: sequence_Inr)
qed

lemma bvec_pure:
  "(\<And>u v. h u v = Inr (f u v)) \<Longrightarrow> length r = length c \<Longrightarrow> bvec h r c = Inr (map2 f r c)"
  by (simp add: bvec_def blist_same sequence_map2_Inr)

lemma zip_rows:
  assumes "is_mat k n A" and "is_mat k n B" and "p \<in> set (zip A B)"
  shows "length (fst p) = n \<and> length (snd p) = n"
proof -
  obtain r c where p: "p = (r, c)" by (cases p)
  with assms(3) have "r \<in> set A" and "c \<in> set B"
    by (auto dest: set_zip_leftD set_zip_rightD)
  with assms(1,2) show ?thesis by (simp add: p is_mat_def list_all_iff)
qed

lemma bmat_pure:
  assumes h: "\<And>u v. h u v = Inr (f u v)" and "is_mat k n A" and "is_mat k n B"
  shows "bmat h A B = Inr (map2 (map2 f) A B)"
proof -
  have "\<And>p. p \<in> set (zip A B) \<Longrightarrow>
          (case p of (r, c) \<Rightarrow> bvec h r c) = Inr (case p of (r, c) \<Rightarrow> map2 f r c)"
    using zip_rows [OF assms(2,3)] by (simp add: case_prod_unfold bvec_pure [OF h])
  then have "sequence (map2 (bvec h) A B) = Inr (map2 (map2 f) A B)"
    by (rule sequence_cong_Inr)
  then show ?thesis
    using assms(2,3) by (simp add: bmat_def blist_same is_mat_def)
qed

lemma is_mat_map2:
  "is_mat k n A \<Longrightarrow> is_mat k n B \<Longrightarrow> is_mat k n (map2 (map2 f) A B)"
proof -
  assume a: "is_mat k n A" and b: "is_mat k n B"
  have "\<And>p. p \<in> set (zip A B) \<Longrightarrow> length (map2 f (fst p) (snd p)) = n"
    using zip_rows [OF a b] by simp
  then show ?thesis
    using a b by (simp add: is_mat_def list_all_iff case_prod_unfold)
qed

lemma is_mat_map: "is_mat k n A \<Longrightarrow> is_mat k n (map (map f) A)"
  by (simp add: is_mat_def list_all_iff)

lemma is_mat_nth: "is_mat k n A \<Longrightarrow> i < k \<Longrightarrow> length (A ! i) = n"
  by (simp add: is_mat_def list_all_length)

lemma HighwayMLP_forward_transformed_gate:
  "HighwayMLP_forward self x =
     and_then (transformed self x) (\<lambda>h. and_then (gate self x) (\<lambda>g.
     and_then (bmat mul h g) (\<lambda>a. and_then (bmat mul (map (map (\<lambda>g. 1 - g)) g) x) (\<lambda>c.
     bmat add a c))))"
  by (simp add: HighwayMLP_forward_def transformed_def gate_def and_then_def split: sum.splits)

section \<open>Lemmas on the Squeeze-and-Excitation module\<close>

lemma is_ten3_nth: "is_ten3 n c l x \<Longrightarrow> i < n \<Longrightarrow> is_mat c l (x ! i)"
  by (simp add: is_ten3_def list_all_length)

lemma is_ten3_map: "is_ten3 n c l x \<Longrightarrow> is_ten3 n c l (map (map (map f)) x)"
  by (simp add: is_ten3_def is_mat_def list_all_iff)

lemma AdaptiveAvgPool1d_1_shape:
  assumes "is_ten3 n c l x" and "0 < l"
  shows "\<exists>p. AdaptiveAvgPool1d_1 x = Inr p \<and> is_ten3 n c 1 p"
proof -
  have "list_all (list_all (\<lambda>r. r \<noteq> [])) x"
    using assms by (auto simp: is_ten3_def is_mat_def list_all_iff)
  moreover have "is_ten3 n c 1 (map (map (\<lambda>r. [sum_list r / real (length r)])) x)"
    using assms(1) by (simp add: is_ten3_def is_mat_def list_all_iff)
  ultimately show ?thesis by (simp add: AdaptiveAvgPool1d_1_def)
qed

lemma ncols_is_mat: "is_mat c l xb \<Longrightarrow> 0 < c \<Longrightarrow> ncols xb = l"
  by (cases xb) (simp_all add: is_mat_def ncols_def)

lemma Conv1d_k1_forward_shape:
  assumes cv: "Conv1d_k1_inst i out cv" and x: "is_ten3 n i l x" and i: "0 < i"
    and l: "0 < l"
  shows "\<exists>y. Conv1d_k1_forward cv x = Inr y \<and> is_ten3 n out l y"
proof -
  let ?y = "map (\<lambda>xb. map2 (\<lambda>w c0. map (\<lambda>t. dot w (column xb t) + c0) [0..<ncols xb])
                          (conv_weight cv) (conv_bias cv)) x"
  from cv have ic: "in_channels cv = i" and lw: "length (conv_weight cv) = out"
    and lb: "length (conv_bias cv) = out"
    by (simp_all add: Conv1d_k1_inst_def is_mat_def)
  have xb: "\<And>xb. xb \<in> set x \<Longrightarrow> is_mat i l xb \<and> ncols xb = l"
  proof -
    fix xb assume "xb \<in> set x"
    with x have "is_mat i l xb" by (simp add: is_ten3_def list_all_iff)
    with i show "is_mat i l xb \<and> ncols xb = l" by (simp add: ncols_is_mat)
  qed
  have ok: "list_all (\<lambda>xb. length xb = in_channels cv \<and> 0 < ncols xb \<and>
                              list_all (\<lambda>r. length r = ncols xb) xb) x"
    unfolding list_all_iff ic
  proof
    fix xb assume "xb \<in> set x"
    from xb [OF this] l
    show "length xb = i \<and> 0 < ncols xb \<and> (\<forall>r\<in>set xb. length r = ncols xb)"
      by (simp add: is_mat_def list_all_iff)
  qed
  have "\<And>xb. xb \<in> set x \<Longrightarrow>
          is_mat out l (map2 (\<lambda>w c0. map (\<lambda>t. dot w (column xb t) + c0) [0..<ncols xb])
                         (conv_weight cv) (conv_bias cv))"
    using xb by (auto simp: is_mat_def lw lb list_all_iff)
  then have "is_ten3 n out l ?y"
    using x by (simp add: is_ten3_def list_all_iff)
  with ok show ?thesis by (simp add: Conv1d_k1_forward_def)
qed

lemma singleton_rows_unsqueeze:
  assumes "is_ten3 n c 1 g"
  shows "unsqueeze_last (map (map hd) g) = g"
proof -
  have "\<And>r. length r = 1 \<Longrightarrow> [hd r] = (r :: real list)"
    by (case_tac r) simp_all
  then have "\<And>m. m \<in> set g \<Longrightarrow> map ((\<lambda>v. [v]) \<circ> hd) m = m"
    using assms by (intro map_idI) (simp add: is_ten3_def is_mat_def list_all_iff)
  then show ?thesis
    by (simp add: unsqueeze_last_def map_idI)
qed

lemma bten3_mul_gate:
  assumes x: "is_ten3 n c l x" and g: "is_ten3 n c 1 g"
  shows "bten3 mul x g = Inr (rescale x g)"
proof -
  let ?a = "map (map hd) g"
  have lx: "length x = n" and lg: "length g = n"
    using x g by (simp_all add: is_ten3_def)
  have z: "list_all (\<lambda>p. length (fst p) = length (snd p)) (zip x ?a)"
    unfolding list_all_length
  proof (intro allI impI)
    fix k assume "k < length (zip x ?a)"
    then have k: "k < n" by (simp add: lx lg)
    from is_ten3_nth [OF x k] is_ten3_nth [OF g k] k
    show "length (fst (zip x ?a ! k)) = length (snd (zip x ?a ! k))"
      by (simp add: lx lg is_mat_def)
  qed
  have "bten3 mul x (unsqueeze_last ?a)
        = Inr (map2 (\<lambda>m ar. map2 (\<lambda>r v. map (\<lambda>u. u * v) r) m ar) x ?a)"
    using z by (intro bten3_mul_unsqueezed) (simp add: lx lg)
  moreover have "map2 (\<lambda>m ar. map2 (\<lambda>r v. map (\<lambda>u. u * v) r) m ar) x ?a = rescale x g"
    unfolding rescale_def
  proof (rule nth_equalityI)
    show "length (map2 (\<lambda>m ar. map2 (\<lambda>r v. map (\<lambda>u. u * v) r) m ar) x ?a)
          = length (map (\<lambda>n. map (\<lambda>c. map (\<lambda>v. v * g ! n ! c ! 0) (x ! n ! c)) [0..<length (x ! n)])
                     [0..<length x])"
      by (simp add: lx lg)
  next
    fix k assume "k < length (map2 (\<lambda>m ar. map2 (\<lambda>r v. map (\<lambda>u. u * v) r) m ar) x ?a)"
    then have k: "k < n" by (simp add: lx lg)
    from is_ten3_nth [OF x k] is_ten3_nth [OF g k]
    have lk: "length (x ! k) = c" "length (g ! k) = c"
      and gk: "\<And>j. j < c \<Longrightarrow> length (g ! k ! j) = 1"
      by (simp_all add: is_mat_def list_all_length)
    have "\<And>j. j < c \<Longrightarrow> hd (g ! k ! j) = g ! k ! j ! 0"
    proof -
      fix j assume "j < c"
      from gk [OF this] have "g ! k ! j \<noteq> []" by auto
      then show "hd (g ! k ! j) = g ! k ! j ! 0" by (rule hd_conv_nth)
    qed
    then show "map2 (\<lambda>m ar. map2 (\<lambda>r v. map (\<lambda>u. u * v) r) m ar) x ?a ! k
          = map (\<lambda>n. map (\<lambda>c. map (\<lambda>v. v * g ! n ! c ! 0) (x ! n ! c)) [0..<length (x ! n)])
              [0..<length x] ! k"
      using k by (intro nth_equalityI) (simp_all add: lx lg lk)
  qed
  ultimately show ?thesis
    by (simp only: singleton_rows_unsqueeze [OF g])
qed

lemma rescale_shape:
  assumes "is_ten3 n c l x"
  shows "is_ten3 n c l (rescale x g)"
proof -
  have "\<And>k. k < n \<Longrightarrow> length (x ! k) = c \<and> (\<forall>j<c. length (x ! k ! j) = l)"
    using is_ten3_nth [OF assms] by (simp add: is_mat_def list_all_length)
  then show ?thesis
    using assms by (simp add: is_ten3_def rescale_def is_mat_def list_all_length)
qed

lemma SEModule_forward_gate:
  "SEModule_forward self x = and_then (SE_gate self x) (\<lambda>g. bten3 mul x g)"
  by (simp add: SEModule_forward_def SE_gate_def Let_def and_then_def split: sum.splits)

lemma SE_gate_shape:
  assumes inst: "SEModule_inst c r self" and x: "is_ten3 n c l x" and l: "0 < l"
  shows "\<exists>g. SE_gate self x = Inr g \<and> is_ten3 n c 1 g"
proof -
  from inst have r: "r < c" "0 < r"
    and c1: "Conv1d_k1_inst c (c div r) (fc1 self)"
    and c2: "Conv1d_k1_inst (c div r) c (fc2 self)"
    by (simp_all add: SEModule_inst_def)
  from r have c: "0 < c" and m: "0 < c div r"
    by (simp_all add: div_greater_zero_iff)
  from AdaptiveAvgPool1d_1_shape [OF x l]
  obtain p where p: "AdaptiveAvgPool1d_1 x = Inr p" "is_ten3 n c 1 p" by blast
  from Conv1d_k1_forward_shape [OF c1 p(2) c]
  have "\<exists>h. Conv1d_k1_forward (fc1 self) p = Inr h \<and> is_ten3 n (c div r) 1 h" by simp
  then
  obtain h where h: "Conv1d_k1_forward (fc1 self) p = Inr h" "is_ten3 n (c div r) 1 h" by blast
  have "is_ten3 n (c div r) 1 (ReLU_forward h)"
    unfolding ReLU_forward_def using h(2) by (rule is_ten3_map)
  from Conv1d_k1_forward_shape [OF c2 this m]
  have "\<exists>z. Conv1d_k1_forward (fc2 self) (ReLU_forward h) = Inr z \<and> is_ten3 n c 1 z"
    by simp
  then
  obtain z where z: "Conv1d_k1_forward (fc2 self) (ReLU_forward h) = Inr z" "is_ten3 n c 1 z"
    by blast
  have "is_ten3 n c 1 (Sigmoid_forward z)"
    unfolding Sigmoid_forward_def using z(2) by (rule is_ten3_map)
  moreover have "SE_gate self x = Inr (Sigmoid_forward z)"
    unfolding SE_gate_def by (simp only: p(1) h(1) z(1) and_then_Inr)
  ultimately show ?thesis by blast
qed

lemma SEModule_forward_gate_rescale:
  assumes "SEModule_inst c r self" and "is_ten3 n c l x" and "0 < l"
  shows "\<exists>g. SE_gate self x = Inr g \<and> is_ten3 n c 1 g
              \<and> SEModule_forward self x = Inr (rescale x g)
              \<and> is_ten3 n c l (rescale x g)"
proof -
  from SE_gate_shape [OF assms]
  obtain g where g: "SE_gate self x = Inr g" "is_ten3 n c 1 g" by blast
  have "SEModule_forward self x = Inr (rescale x g)"
    unfolding SEModule_forward_gate g(1) and_then_Inr
    using assms(2) g(2) by (rule bten3_mul_gate)
  with g rescale_shape [OF assms(2)] show ?thesis by blast
qed

section \<open>Lemmas on the residual blocks\<close>

lemma zip_mats:
  assumes "is_ten3 n c l A" and "is_ten3 n c l B" and "p \<in> set (zip A B)"
  shows "is_mat c l (fst p) \<and> is_mat c l (snd p)"
proof -
  obtain u v where p: "p = (u, v)" by (cases p)
  with assms(3) have "u \<in> set A" and "v \<in> set B"
    by (auto dest: set_zip_leftD set_zip_rightD)
  with assms(1,2) show ?thesis by (simp add: p is_ten3_def list_all_iff)
qed

lemma bten3_pure:
  assumes h: "\<And>u v. h u v = Inr (f u v)" and "is_ten3 n c l A" and "is_ten3 n c l B"
  shows "bten3 h A B = Inr (map2 (map2 (map2 f)) A B)"
proof -
  have "\<And>p. p \<in> set (zip A B) \<Longrightarrow>
          (case p of (u, v) \<Rightarrow> bmat h u v) = Inr (case p of (u, v) \<Rightarrow> map2 (map2 f) u v)"
  proof -
    fix p assume "p \<in> set (zip A B)"
    from zip_mats [OF assms(2,3) this]
    have u: "is_mat c l (fst p)" and v: "is_mat c l (snd p)" by simp_all
    have "bmat h (fst p) (snd p) = Inr (map2 (map2 f) (fst p) (snd p))"
      using h u v by (rule bmat_pure)
    then show "(case p of (u, v) \<Rightarrow> bmat h u v) = Inr (case p of (u, v) \<Rightarrow> map2 (map2 f) u v)"
      by (simp add: case_prod_unfold)
  qed
  then have "sequence (map2 (bmat h) A B) = Inr (map2 (map2 (map2 f)) A B)"
    by (rule sequence_cong_Inr)
  then show ?thesis
    using assms(2,3) by (simp add: bten3_def blist_same is_ten3_def)
qed

lemma Bottleneck_forward_residual_sum: "Bottleneck_forward self x = residual_sum self x"
  by (simp add: Bottleneck_forward_def residual_sum_def main_path_def skip_connection_def
      followed_by_def pure_layer_def Let_def and_then_def split: sum.splits)

section \<open>Lemmas on the constructors\<close>

lemma free_of_Module:
  "free_of cs (Module c a ch) = (c \<notin> set cs \<and> list_all (\<lambda>p. free_of cs (snd p)) ch)"
  by (auto simp: free_of_def list_all_iff)

lemma free_of_nn: "nn fw c a = Inr m \<Longrightarrow> c \<notin> set cs \<Longrightarrow> free_of cs m"
  by (auto simp: nn_def free_of_Module split: if_splits)

lemma free_of_Sequential_of:
  "Sequential \<notin> set cs \<Longrightarrow> list_all (free_of cs) ms \<Longrightarrow> free_of cs (Sequential_of ms)"
  by (simp add: Sequential_of_def free_of_Module list_all_length)

lemma free_of_ModuleList_of:
  "ModuleList \<notin> set cs \<Longrightarrow> list_all (free_of cs) ms \<Longrightarrow> free_of cs (ModuleList_of ms)"
  by (simp add: ModuleList_of_def free_of_Module list_all_length)

lemma nn_InrD: "nn fw c a = Inr m \<Longrightarrow> m = Module c a []"
  by (auto simp: nn_def split: if_splits)

lemma free_of_SEModule_init:
  assumes "SEModule_init fw c r = Inr m"
  shows "free_of [Conv2d, BatchNorm2d, CBAM_Module, SCSEModule] m"
  using assms
  by (auto simp: SEModule_init_def free_of_Module split: if_splits
      dest!: and_then_InrD nn_InrD)

lemma free_of_with_downsample:
  "(\<And>d. ds = Some d \<Longrightarrow> free_of cs d)
   \<Longrightarrow> list_all (\<lambda>p. free_of cs (snd p)) (with_downsample ds)"
  by (cases ds) (simp_all add: with_downsample_def)

lemma free_of_block_init:
  assumes "block_init fw blk i p g r s ds = Inr m"
    and "\<And>d. ds = Some d \<Longrightarrow> free_of [Conv2d, BatchNorm2d, CBAM_Module, SCSEModule] d"
  shows "free_of [Conv2d, BatchNorm2d, CBAM_Module, SCSEModule] m"
proof (cases blk)
  case SEBottleneck
  with assms(1) show ?thesis
    using free_of_with_downsample [OF assms(2)]
    by (auto simp: block_init_def SEBottleneck_init_def free_of_Module
        dest!: and_then_InrD nn_InrD free_of_SEModule_init)
next
  case SEResNetBottleneck
  with assms(1) show ?thesis
    using free_of_with_downsample [OF assms(2)]
    by (auto simp: block_init_def SEResNetBottleneck_init_def free_of_Module
        dest!: and_then_InrD nn_InrD free_of_SEModule_init)
next
  case SEResNeXtBottleneck
  with assms(1) show ?thesis
    using free_of_with_downsample [OF assms(2)]
    by (auto simp: block_init_def SEResNeXtBottleneck_init_def free_of_Module Let_def
        dest!: and_then_InrD nn_InrD free_of_SEModule_init)
next
  case SEResNetBlock
  with assms(1) show ?thesis
    using free_of_with_downsample [OF assms(2)]
    by (auto simp: block_init_def SEResNetBlock_init_def free_of_Module
        dest!: and_then_InrD nn_InrD free_of_SEModule_init)
qed

lemma sequence_replicate_InrD:
  "sequence (replicate n r) = Inr vs \<Longrightarrow> list_all (\<lambda>v. r = Inr v) vs"
proof (induction n arbitrary: vs)
  case 0
  then show ?case by simp
next
  case (Suc n)
  then show ?case by (auto dest!: and_then_InrD)
qed


lemma sequence_replicate_length:
  "sequence (replicate n r) = Inr vs \<Longrightarrow> length vs = n"
proof (induction n arbitrary: vs)
  case 0
  then show ?case by simp
next
  case (Suc n)
  then show ?case by (auto dest!: and_then_InrD)
qed

lemma and_then_InrE:
  assumes "and_then r f = Inr y"
  obtains v where "r = Inr v" and "f v = Inr y"
  using assms by (cases r) (simp_all add: and_then_def)

lemma free_of_make_layer:
  assumes "make_layer fw i blk p n g r s k pd = Inr (l, i')"
  shows "free_of [Conv2d, BatchNorm2d, CBAM_Module, SCSEModule] l"
  using assms unfolding make_layer_def Let_def
proof (elim and_then_InrE)
  let ?U = "[Conv2d, BatchNorm2d, CBAM_Module, SCSEModule]"
  fix ds first more
  assume d: "(if s \<noteq> 1 \<or> i \<noteq> p * expansion blk
        then and_then (nn fw Conv1d (Conv1d_args i (p * expansion blk) k s pd 1 False)) (\<lambda>m0.
             and_then (nn fw BatchNorm1d [(''num_features'', p * expansion blk)]) (\<lambda>m1.
             Inr (Some (Sequential_of [m0, m1]))))
        else Inr None) = Inr ds"
    and first: "block_init fw blk i p g r s ds = Inr first"
    and more: "sequence (replicate (nat (n - 1))
                 (block_init fw blk (p * expansion blk) p g r 1 None)) = Inr more"
    and res: "Inr (Sequential_of (first # more), p * expansion blk) = Inr (l, i')"
  have ds: "\<And>d. ds = Some d \<Longrightarrow> free_of ?U d"
    using d
    by (auto split: if_splits dest!: and_then_InrD nn_InrD
        simp: free_of_Module Sequential_of_def)
  have f: "free_of ?U first"
    using first ds by (rule free_of_block_init)
  have "list_all (\<lambda>v. block_init fw blk (p * expansion blk) p g r 1 None = Inr v) more"
    using more by (rule sequence_replicate_InrD)
  then have "list_all (free_of ?U) more"
    by (auto simp: list_all_iff intro: free_of_block_init)
  with f have "free_of ?U (Sequential_of (first # more))"
    by (intro free_of_Sequential_of) simp_all
  with res show ?thesis by simp
qed

lemma free_of_HighwayMLP_init:
  "HighwayMLP_init fw n = Inr m \<Longrightarrow> free_of [Conv2d, BatchNorm2d, CBAM_Module, SCSEModule] m"
  by (auto simp: HighwayMLP_init_def free_of_Module dest!: and_then_InrD nn_InrD)


lemma case_prod_InrE:
  assumes "(case v of (a, c) \<Rightarrow> f a c) = Inr y"
  obtains a c where "v = (a, c)" and "f a c = Inr y"
  using assms by (cases v) simp

lemma free_of_layer0_modules:
  assumes "(if input_3x3 then
          and_then (nn fw Conv1d (Conv1d_args in_chans 64 3 2 1 1 False)) (\<lambda>conv1.
          and_then (nn fw BatchNorm1d [(''num_features'', 64)]) (\<lambda>bn1.
          and_then (nn fw ReLU [(''inplace'', 1)]) (\<lambda>relu1.
          and_then (nn fw Conv1d (Conv1d_args 64 64 3 1 1 1 False)) (\<lambda>conv2.
          and_then (nn fw BatchNorm1d [(''num_features'', 64)]) (\<lambda>bn2.
          and_then (nn fw ReLU [(''inplace'', 1)]) (\<lambda>relu2.
          and_then (nn fw Conv1d (Conv1d_args 64 inp 3 1 1 1 False)) (\<lambda>conv3.
          and_then (nn fw BatchNorm1d [(''num_features'', inp)]) (\<lambda>bn3.
          and_then (nn fw ReLU [(''inplace'', 1)]) (\<lambda>relu3.
          Inr [(''conv1'', conv1), (''bn1'', bn1), (''relu1'', relu1), (''conv2'', conv2),
               (''bn2'', bn2), (''relu2'', relu2), (''conv3'', conv3), (''bn3'', bn3),
               (''relu3'', relu3)])))))))))
        else
          and_then (nn fw Conv1d (Conv1d_args in_chans inp 7 2 3 1 False)) (\<lambda>conv1.
          and_then (nn fw BatchNorm1d [(''num_features'', inp)]) (\<lambda>bn1.
          and_then (nn fw ReLU [(''inplace'', 1)]) (\<lambda>relu1.
          Inr [(''conv1'', conv1), (''bn1'', bn1), (''relu1'', relu1)])))) = Inr ms"
  shows "list_all (\<lambda>p. free_of [Conv2d, BatchNorm2d, CBAM_Module, SCSEModule] (snd p)) ms"
  using assms
  by (auto split: if_splits dest!: and_then_InrD nn_InrD simp: free_of_Module)

lemma SENet_init_InrD:
  assumes "SENet_init fw pool blk layers g r dr in_chans inp input_3x3 k pd nc gp = Inr (m, calls)"
  shows "\<exists>l0 l1 l2 l3 l4 ap hs i4.
           m = Module SENet
                 [(''inplanes'', i4), (''num_classes'', nc),
                  (''num_features'', 512 * expansion blk), (''highway_number'', 2)]
                 [(''layer0'', l0), (''layer1'', l1), (''layer2'', l2), (''layer3'', l3),
                  (''layer4'', l4), (''avg_pool'', ap), (''highway_layers'', ModuleList_of hs),
                  (''last_linear'', Module Linear (Linear_args 256 9) []),
                  (''lstm'', Module LSTM [(''input_size'', 400), (''hidden_size'', 128),
                     (''bidirectional'', 1), (''batch_first'', 1)] []),
                  (''gru'', Module GRU [(''input_size'', 400), (''hidden_size'', 128),
                     (''bidirectional'', 1), (''batch_first'', 1)] []),
                  (''attention_layer'', Module Attention [(''feature_dim'', 256),
                     (''step_dim'', 2048), (''bias'', 1)] [])]
         \<and> list_all (free_of [Conv2d, BatchNorm2d, CBAM_Module, SCSEModule]) [l0, l1, l2, l3, l4]
         \<and> pool gp = Inr ap
         \<and> length hs = 2
         \<and> list_all (\<lambda>h. HighwayMLP_init fw (512 * expansion blk) = Inr h) hs
         \<and> calls = concat (map weight_init (modules m))"
  using assms unfolding SENet_init_def Let_def
  apply (elim and_then_InrE case_prod_InrE)
  apply (drule free_of_layer0_modules)
  apply (frule sequence_replicate_length)
  apply (drule sequence_replicate_InrD)
  apply (clarsimp simp: Attention_init_def dest!: nn_InrD free_of_make_layer)
  apply (rule exI, intro conjI, rule refl)
    apply (simp_all add: free_of_Module)
  done

lemma free_of_mono: "set cs' \<subseteq> set cs \<Longrightarrow> free_of cs m \<Longrightarrow> free_of cs' m"
  by (auto simp: free_of_def list_all_iff)

lemma weight_init_free:
  "free_of [Conv2d, BatchNorm2d] m \<Longrightarrow> list_all (\<lambda>k. weight_init k = []) (modules m)"
  by (simp add: free_of_def weight_init_def list_all_iff)

lemma free_of_SENet_init:
  assumes init: "SENet_init fw pool blk layers g r dr in_chans inp input_3x3 k pd nc gp
                 = Inr (m, calls)"
    and pool: "\<And>p. pool gp = Inr p \<Longrightarrow> free_of cs p"
    and cs: "set cs \<subseteq> {Conv2d, BatchNorm2d, CBAM_Module, SCSEModule}"
  shows "free_of cs m"
proof -
  let ?U = "[Conv2d, BatchNorm2d, CBAM_Module, SCSEModule]"
  from SENet_init_InrD [OF init] obtain l0 l1 l2 l3 l4 ap hs i4 where
    m: "m = Module SENet
                 [(''inplanes'', i4), (''num_classes'', nc),
                  (''num_features'', 512 * expansion blk), (''highway_number'', 2)]
                 [(''layer0'', l0), (''layer1'', l1), (''layer2'', l2), (''layer3'', l3),
                  (''layer4'', l4), (''avg_pool'', ap), (''highway_layers'', ModuleList_of hs),
                  (''last_linear'', Module Linear (Linear_args 256 9) []),
                  (''lstm'', Module LSTM [(''input_size'', 400), (''hidden_size'', 128),
                     (''bidirectional'', 1), (''batch_first'', 1)] []),
                  (''gru'', Module GRU [(''input_size'', 400), (''hidden_size'', 128),
                     (''bidirectional'', 1), (''batch_first'', 1)] []),
                  (''attention_layer'', Module Attention [(''feature_dim'', 256),
                     (''step_dim'', 2048), (''bias'', 1)] [])]"
    and ls: "list_all (free_of ?U) [l0, l1, l2, l3, l4]"
    and ap: "pool gp = Inr ap"
    and hs: "list_all (\<lambda>h. HighwayMLP_init fw (512 * expansion blk) = Inr h) hs"
    by blast
  have sub: "set cs \<subseteq> set ?U" using cs by simp
  have "list_all (free_of ?U) hs"
    using hs by (auto simp: list_all_iff intro: free_of_HighwayMLP_init)
  then have "free_of ?U (ModuleList_of hs)"
    by (intro free_of_ModuleList_of) simp_all
  then have h: "free_of cs (ModuleList_of hs)"
    using sub by (rule free_of_mono [rotated])
  have l: "list_all (free_of cs) [l0, l1, l2, l3, l4]"
    using ls free_of_mono [OF sub] by simp
  have c: "SENet \<notin> set cs" "Linear \<notin> set cs" "LSTM \<notin> set cs" "GRU \<notin> set cs"
    "Attention \<notin> set cs"
    using cs by auto
  show ?thesis
    unfolding m using l h pool [OF ap] c by (simp add: free_of_Module)
qed

lemma Linear_forward_width:
  assumes "Linear_inst i out l" and "Linear_forward l x = Inr y"
  shows "is_mat (length x) out y"
proof -
  from assms(1) have "length (lin_weight l) = out" and "length (lin_bias l) = out"
    by (simp_all add: Linear_inst_def is_mat_def)
  with assms(2) show ?thesis
    by (auto simp: Linear_forward_def is_mat_def list_all_iff split: if_splits)
qed

lemma SENet_forward_width:
  assumes "Linear_inst i out (last_linear self)" and "SENet_forward self x = Inr y"
  shows "list_all (\<lambda>row. length row = out) y"
proof -
  from assms(2) obtain z where "Linear_forward (last_linear self) z = Inr y"
    unfolding SENet_forward_def logits_def Let_def
    by (elim and_then_InrE) simp
  from Linear_forward_width [OF assms(1) this] show ?thesis
    by (simp add: is_mat_def)
qed

lemma and_then_InlD:
  "and_then r f = Inl e \<Longrightarrow> r = Inl e \<or> (\<exists>v. r = Inr v \<and> f v = Inl e)"
  by (cases r) (simp_all add: and_then_def)

lemma nn_InlD: "nn fw c a = Inl e \<Longrightarrow> e = FrameworkError"
  by (auto simp: nn_def split: if_splits)

lemma floordiv_InlD: "floordiv a c = Inl e \<Longrightarrow> e = ZeroDivisionError"
  by (auto simp: floordiv_def split: if_splits)

lemma SEModule_init_AssertionError:
  "SEModule_init fw channels reduction = Inl AssertionError \<longleftrightarrow> channels \<le> reduction"
  by (auto simp: SEModule_init_def dest!: and_then_InlD nn_InlD floordiv_InlD)

lemma Attention_init_no_assert: "Attention_init fw f s wb \<noteq> Inl AssertionError"
  by (auto simp: Attention_init_def dest!: nn_InlD)

lemma HighwayMLP_init_no_assert: "HighwayMLP_init fw n \<noteq> Inl AssertionError"
  by (auto simp: HighwayMLP_init_def dest!: and_then_InlD nn_InlD)

lemma CBAM_Module_init_no_assert: "CBAM_Module_init fw c r \<noteq> Inl AssertionError"
  by (auto simp: CBAM_Module_init_def dest!: and_then_InlD nn_InlD floordiv_InlD)

lemma SCSEModule_init_no_assert: "SCSEModule_init fw c r \<noteq> Inl AssertionError"
  by (auto simp: SCSEModule_init_def Let_def dest!: and_then_InlD nn_InlD floordiv_InlD)

lemma block_init_AssertionError:
  assumes "block_init fw blk i p g r s ds = Inl AssertionError"
  shows "p * expansion blk \<le> r"
proof (cases blk)
  case SEBottleneck
  with assms show ?thesis
    by (auto simp: block_init_def SEBottleneck_init_def expansion_def
        SEModule_init_AssertionError dest!: and_then_InlD nn_InlD)
next
  case SEResNetBottleneck
  with assms show ?thesis
    by (auto simp: block_init_def SEResNetBottleneck_init_def expansion_def
        SEModule_init_AssertionError dest!: and_then_InlD nn_InlD)
next
  case SEResNeXtBottleneck
  with assms show ?thesis
    by (auto simp: block_init_def SEResNeXtBottleneck_init_def expansion_def Let_def
        SEModule_init_AssertionError dest!: and_then_InlD nn_InlD)
next
  case SEResNetBlock
  with assms show ?thesis
    by (auto simp: block_init_def SEResNetBlock_init_def expansion_def
        SEModule_init_AssertionError dest!: and_then_InlD nn_InlD)
qed

lemma sequence_InlD: "sequence rs = Inl e \<Longrightarrow> Inl e \<in> set rs"
  by (induction rs) (auto dest!: and_then_InlD)

lemma blist_no_assert:
  assumes "\<And>u v. f u v \<noteq> Inl AssertionError"
  shows "blist f xs ys \<noteq> Inl AssertionError"
proof
  assume "blist f xs ys = Inl AssertionError"
  then show False
    using assms
    by (auto simp: blist_def split: if_splits dest!: sequence_InlD) metis+
qed

lemma elementwise_no_assert:
  "add u v \<noteq> Inl AssertionError" "mul u v \<noteq> Inl AssertionError"
  "divide_t u v \<noteq> Inl AssertionError"
  by (simp_all add: add_def mul_def divide_t_def)

lemma bmat_no_assert:
  "(\<And>u v. f u v \<noteq> Inl AssertionError) \<Longrightarrow> bmat f xs ys \<noteq> Inl AssertionError"
  unfolding bmat_def bvec_def by (intro blist_no_assert)

lemma bten3_no_assert:
  "(\<And>u v. f u v \<noteq> Inl AssertionError) \<Longrightarrow> bten3 f xs ys \<noteq> Inl AssertionError"
  unfolding bten3_def by (intro blist_no_assert bmat_no_assert)

lemma framework_ops_no_assert:
  "view_rows n flat \<noteq> Inl AssertionError" "mm a w \<noteq> Inl AssertionError"
  "Linear_forward l x \<noteq> Inl AssertionError" "Conv1d_k1_forward cv t \<noteq> Inl AssertionError"
  "AdaptiveAvgPool1d_1 t \<noteq> Inl AssertionError"
  by (simp_all add: view_rows_def mm_def Linear_forward_def Conv1d_k1_forward_def
      AdaptiveAvgPool1d_1_def)

lemma Attention_forward_no_assert: "Attention_forward self x msk \<noteq> Inl AssertionError"
proof
  assume "Attention_forward self x msk = Inl AssertionError"
  then show False
    unfolding Attention_forward_def Attention_coefficients_def Let_def
    using framework_ops_no_assert bmat_no_assert [OF elementwise_no_assert(1)]
      bmat_no_assert [OF elementwise_no_assert(2)] bmat_no_assert [OF elementwise_no_assert(3)]
      bten3_no_assert [OF elementwise_no_assert(2)]
    by (auto dest!: and_then_InlD split: if_splits option.splits)
qed

lemma SEModule_forward_no_assert: "SEModule_forward self x \<noteq> Inl AssertionError"
proof
  assume "SEModule_forward self x = Inl AssertionError"
  then show False
    unfolding SEModule_forward_def Let_def
    using framework_ops_no_assert bten3_no_assert [OF elementwise_no_assert(2)]
    by (auto dest!: and_then_InlD)
qed

section \<open>Where the assertion of the repository can be raised\<close>

lemma expansion_pos: "0 < expansion blk"
  by (cases blk) (simp_all add: expansion_def)

lemma make_layer_AssertionError:
  assumes "make_layer fw i blk p n g r s k pd = Inl AssertionError"
  shows "p * expansion blk \<le> r"
  using assms unfolding make_layer_def Let_def
  by (auto dest!: and_then_InlD nn_InlD sequence_InlD block_init_AssertionError
      block_init_AssertionError [OF sym] split: if_splits)

lemma make_layer_AssertionError_64:
  assumes "make_layer fw i blk p n g r s k pd = Inl AssertionError" and "64 \<le> p"
  shows "64 * expansion blk \<le> r"
proof -
  have "64 * expansion blk \<le> p * expansion blk"
    using assms(2) expansion_pos [of blk] by (intro mult_right_mono) simp_all
  with make_layer_AssertionError [OF assms(1)] show ?thesis by simp
qed

lemma index_InlD: "index xs i = Inl e \<Longrightarrow> e = IndexError"
  by (auto simp: index_def split: if_splits)

lemma layer0_modules_no_assert:
  "(if input_3x3 then
          and_then (nn fw Conv1d (Conv1d_args in_chans 64 3 2 1 1 False)) (\<lambda>conv1.
          and_then (nn fw BatchNorm1d [(''num_features'', 64)]) (\<lambda>bn1.
          and_then (nn fw ReLU [(''inplace'', 1)]) (\<lambda>relu1.
          and_then (nn fw Conv1d (Conv1d_args 64 64 3 1 1 1 False)) (\<lambda>conv2.
          and_then (nn fw BatchNorm1d [(''num_features'', 64)]) (\<lambda>bn2.
          and_then (nn fw ReLU [(''inplace'', 1)]) (\<lambda>relu2.
          and_then (nn fw Conv1d (Conv1d_args 64 inp 3 1 1 1 False)) (\<lambda>conv3.
          and_then (nn fw BatchNorm1d [(''num_features'', inp)]) (\<lambda>bn3.
          and_then (nn fw ReLU [(''inplace'', 1)]) (\<lambda>relu3.
          Inr [(''conv1'', conv1), (''bn1'', bn1), (''relu1'', relu1), (''conv2'', conv2),
               (''bn2'', bn2), (''relu2'', relu2), (''conv3'', conv3), (''bn3'', bn3),
               (''relu3'', relu3)])))))))))
        else
          and_then (nn fw Conv1d (Conv1d_args in_chans inp 7 2 3 1 False)) (\<lambda>conv1.
          and_then (nn fw BatchNorm1d [(''num_features'', inp)]) (\<lambda>bn1.
          and_then (nn fw ReLU [(''inplace'', 1)]) (\<lambda>relu1.
          Inr [(''conv1'', conv1), (''bn1'', bn1), (''relu1'', relu1)]))))
   \<noteq> Inl AssertionError"
  by (auto split: if_splits dest!: and_then_InlD nn_InlD)

lemma and_then_InlE:
  assumes "and_then r f = Inl e"
  obtains "r = Inl e" | v where "r = Inr v" and "f v = Inl e"
  using assms by (cases r) (simp_all add: and_then_def)

lemma case_prod_InlE:
  assumes "(case v of (a, c) \<Rightarrow> f a c) = Inl e"
  obtains a c where "v = (a, c)" and "f a c = Inl e"
  using assms by (cases v) simp

lemma SENet_init_AssertionError:
  assumes "SENet_init fw pool blk layers g r dr in_chans inp input_3x3 k pd nc gp
           = Inl AssertionError"
  shows "64 * expansion blk \<le> r \<or> pool gp = Inl AssertionError"
  using assms layer0_modules_no_assert [of input_3x3 fw in_chans inp]
  unfolding SENet_init_def Let_def
  apply (elim and_then_InlE case_prod_InlE)
                      apply (auto dest!: nn_InlD index_InlD sequence_InlD
      dest: make_layer_AssertionError_64 simp: Attention_init_no_assert
      HighwayMLP_init_no_assert [THEN not_sym])
  done

lemma SENet_init_AssertionError_16:
  assumes "SENet_init fw pool blk layers g 16 dr in_chans inp input_3x3 k pd nc gp
           = Inl AssertionError"
  shows "pool gp = Inl AssertionError"
proof -
  have "\<not> 64 * expansion blk \<le> 16"
    by (cases blk) (simp_all add: expansion_def)
  with SENet_init_AssertionError [OF assms] show ?thesis by simp
qed

lemma factories_AssertionError:
  assumes "f \<in> set factories" and "f fw pool nc ic = Inl AssertionError"
  shows "pool ''max'' = Inl AssertionError"
  using assms
  unfolding factories_def seresnet18_def seresnet34_def seresnet50_def seresnet101_def
    seresnet152_def senet154_def seresnext26_32x4d_def seresnext50_32x4d_def
    seresnext101_32x4d_def
  by (auto dest: SENet_init_AssertionError_16)

lemma reset_classifier_AssertionError:
  assumes "reset_classifier fw pool fm self nc gp = Inl AssertionError"
  shows "pool gp = Inl AssertionError \<or> (\<exists>p. pool gp = Inr p \<and> fm p = Inl AssertionError)"
  using assms unfolding reset_classifier_def Let_def
  by (auto dest!: and_then_InlD nn_InlD split: if_splits option.splits)

lemma conv3x3_no_assert: "conv3x3 fw i o' s \<noteq> Inl AssertionError"
  by (auto simp: conv3x3_def dest: nn_InlD)

lemma cbam_ops_no_assert:
  "AdaptiveMaxPool1d_1 t \<noteq> Inl AssertionError" "mean_dim1 t \<noteq> Inl AssertionError"
  "max_dim1 t \<noteq> Inl AssertionError" "cat_dim1 a m \<noteq> Inl AssertionError"
  "Conv1d_pad_forward c t \<noteq> Inl AssertionError"
  by (simp_all add: AdaptiveMaxPool1d_1_def mean_dim1_def max_dim1_def cat_dim1_def
      Conv1d_pad_forward_def)

lemma CBAM_Module_forward_no_assert: "CBAM_Module_forward self x \<noteq> Inl AssertionError"
proof
  assume "CBAM_Module_forward self x = Inl AssertionError"
  then show False
    unfolding CBAM_Module_forward_def Let_def
    using framework_ops_no_assert cbam_ops_no_assert
      bten3_no_assert [OF elementwise_no_assert(1)] bten3_no_assert [OF elementwise_no_assert(2)]
    by (auto dest!: and_then_InlD)
qed

lemma SCSEModule_forward_no_assert: "SCSEModule_forward self x \<noteq> Inl AssertionError"
proof
  assume "SCSEModule_forward self x = Inl AssertionError"
  then show False
    unfolding SCSEModule_forward_def Let_def
    using framework_ops_no_assert
      bten3_no_assert [OF elementwise_no_assert(1)] bten3_no_assert [OF elementwise_no_assert(2)]
    by (auto dest!: and_then_InlD)
qed

lemma raises_no_assertionD: "raises_no_assertion f \<Longrightarrow> f t \<noteq> Inl AssertionError"
  by (simp add: raises_no_assertion_def)

lemma Sequential_forward_no_assert:
  "list_all raises_no_assertion fs \<Longrightarrow> Sequential_forward fs x \<noteq> Inl AssertionError"
  by (induction fs arbitrary: x) (auto simp: raises_no_assertion_def dest!: and_then_InlD)

lemma HighwayMLP_forward_no_assert:
  assumes "list_all raises_no_assertion (HighwayMLP_callables h)"
  shows "raises_no_assertion (HighwayMLP_forward h)"
  unfolding raises_no_assertion_def
proof (intro allI notI)
  fix x assume "HighwayMLP_forward h x = Inl AssertionError"
  then show False
    unfolding HighwayMLP_forward_def
    using assms framework_ops_no_assert bmat_no_assert [OF elementwise_no_assert(1)]
      bmat_no_assert [OF elementwise_no_assert(2)]
    by (auto simp: HighwayMLP_callables_def raises_no_assertion_def dest!: and_then_InlD)
qed

lemma skip_no_assert:
  assumes "list_all raises_no_assertion (case ds of None \<Rightarrow> [] | Some d \<Rightarrow> [d])"
  shows "(case ds of None \<Rightarrow> Inr x | Some d \<Rightarrow> d x) \<noteq> Inl AssertionError"
  using assms by (cases ds) (simp_all add: raises_no_assertion_def)

lemma Bottleneck_forward_no_assert:
  assumes "list_all raises_no_assertion (Bottleneck_layers bk)"
  shows "raises_no_assertion (Bottleneck_forward bk)"
  unfolding raises_no_assertion_def
proof (intro allI notI)
  fix x assume "Bottleneck_forward bk x = Inl AssertionError"
  moreover have "(case downsample bk of None \<Rightarrow> Inr x | Some d \<Rightarrow> d x) \<noteq> Inl AssertionError"
    using assms by (intro skip_no_assert) (simp add: Bottleneck_layers_def)
  ultimately show False
    unfolding Bottleneck_forward_def Let_def
    using assms SEModule_forward_no_assert bten3_no_assert [OF elementwise_no_assert(1)]
    by (auto simp: Bottleneck_layers_def raises_no_assertion_def dest!: and_then_InlD)
qed

lemma SEResNetBlock_forward_no_assert:
  assumes "list_all raises_no_assertion (SEResNetBlock_layers bk)"
  shows "raises_no_assertion (SEResNetBlock_forward bk)"
  unfolding raises_no_assertion_def
proof (intro allI notI)
  fix x assume "SEResNetBlock_forward bk x = Inl AssertionError"
  moreover have "(case blk_downsample bk of None \<Rightarrow> Inr x | Some d \<Rightarrow> d x)
                 \<noteq> Inl AssertionError"
    using assms by (intro skip_no_assert) (simp add: SEResNetBlock_layers_def)
  ultimately show False
    unfolding SEResNetBlock_forward_def Let_def
    using assms SEModule_forward_no_assert bten3_no_assert [OF elementwise_no_assert(1)]
    by (auto simp: SEResNetBlock_layers_def raises_no_assertion_def dest!: and_then_InlD)
qed

lemma forward_features_no_assert:
  assumes "list_all raises_no_assertion (SENet_layers net)"
  shows "raises_no_assertion (forward_features net)"
  unfolding raises_no_assertion_def
proof (intro allI notI)
  fix x assume "forward_features net x = Inl AssertionError"
  then show False
    unfolding forward_features_def
    using assms Sequential_forward_no_assert
    by (auto simp: SENet_layers_def dest!: and_then_InlD)
qed

lemma logits_no_assert:
  assumes "raises_no_assertion (gru net)"
  shows "raises_no_assertion (logits net)"
  unfolding raises_no_assertion_def
proof (intro allI notI)
  fix x assume "logits net x = Inl AssertionError"
  then show False
    unfolding logits_def Let_def
    using assms Attention_forward_no_assert framework_ops_no_assert(3)
    by (auto simp: raises_no_assertion_def dest!: and_then_InlD)
qed

lemma SENet_forward_no_assert:
  assumes "list_all raises_no_assertion (SENet_layers net)" and "raises_no_assertion (gru net)"
  shows "raises_no_assertion (SENet_forward net)"
  unfolding raises_no_assertion_def
proof (intro allI notI)
  fix x assume "SENet_forward net x = Inl AssertionError"
  then show False
    unfolding SENet_forward_def
    using raises_no_assertionD [OF forward_features_no_assert [OF assms(1)]]
      raises_no_assertionD [OF logits_no_assert [OF assms(2)]]
    by (auto dest!: and_then_InlD)
qed

lemma factories_no_assert:
  assumes "pool ''max'' \<noteq> Inl AssertionError"
  shows "list_all (\<lambda>f. f fw pool nc ic \<noteq> Inl AssertionError) factories"
  unfolding list_all_iff using assms factories_AssertionError [of _ fw pool nc ic] by blast

lemma Sequential_forward_raises_no_assertion:
  "list_all raises_no_assertion fs \<Longrightarrow> raises_no_assertion (Sequential_forward fs)"
  using Sequential_forward_no_assert [of fs] by (simp add: raises_no_assertion_def)


section \<open>What the forward pass depends on\<close>

lemma classes_Module:
  "classes (Module c a ch) = c # concat (map (\<lambda>p. classes (snd p)) ch)"
  by (simp add: classes_def map_concat comp_def)

lemma SEModule_init_class: "SEModule_init fw c r = Inr m \<Longrightarrow> cls m = SEModule"
  by (auto simp: SEModule_init_def split: if_splits dest!: and_then_InrD)

lemma cls_in_classes: "cls m \<in> set (classes m)"
  by (cases m) (simp add: classes_Module)

lemma child_classes:
  "(n, k) \<in> set (children m) \<Longrightarrow> c \<in> set (classes k) \<Longrightarrow> c \<in> set (classes m)"
  by (cases m) (force simp: classes_Module)

lemma nth_child_Sequential_of:
  "i < length ms \<Longrightarrow> (str i, ms ! i) \<in> set (children (Sequential_of ms))"
  by (force simp: Sequential_of_def)

lemma nth_child_ModuleList_of:
  "i < length ms \<Longrightarrow> (str i, ms ! i) \<in> set (children (ModuleList_of ms))"
  by (force simp: ModuleList_of_def)

lemma HighwayMLP_init_class: "HighwayMLP_init fw n = Inr m \<Longrightarrow> cls m = HighwayMLP"
  by (auto simp: HighwayMLP_init_def dest!: and_then_InrD)

lemma SEModule_in_block:
  assumes "block_init fw blk i p g r s ds = Inr m"
  shows "SEModule \<in> set (classes m)"
proof -
  from assms obtain se where se: "SEModule_init fw (p * expansion blk) r = Inr se"
    and ch: "(''se_module'', se) \<in> set (children m)"
    by (cases blk)
      (auto simp: block_init_def SEBottleneck_init_def SEResNetBottleneck_init_def
        SEResNeXtBottleneck_init_def SEResNetBlock_init_def expansion_def Let_def
        dest!: and_then_InrD)
  from SEModule_init_class [OF se] cls_in_classes [of se]
  have "SEModule \<in> set (classes se)" by simp
  with ch show ?thesis by (rule child_classes)
qed

lemma SEModule_in_make_layer:
  assumes "make_layer fw i blk p n g r s k pd = Inr (l, i')"
  shows "SEModule \<in> set (classes l)"
proof -
  from assms obtain ds first more
    where first: "block_init fw blk i p g r s ds = Inr first"
      and l: "l = Sequential_of (first # more)"
    unfolding make_layer_def Let_def by (elim and_then_InrE) auto
  have "(str 0, first) \<in> set (children l)"
    unfolding l using nth_child_Sequential_of [of 0 "first # more"] by simp
  then show ?thesis
    using SEModule_in_block [OF first] by (rule child_classes)
qed

lemma SENet_init_classes:
  assumes "SENet_init fw pool blk layers g r dr in_chans inp input_3x3 k pd nc gp = Inr (m, calls)"
  shows "SEModule \<in> set (classes m) \<and> HighwayMLP \<in> set (classes m)
         \<and> Attention \<in> set (classes m)"
proof -
  from assms obtain l1 i1 b1 where ml: "make_layer fw inp blk 64 b1 g r 1 1 0 = Inr (l1, i1)"
    and ch: "(''layer1'', l1) \<in> set (children m)"
    unfolding SENet_init_def Let_def
    by (elim and_then_InrE case_prod_InrE) auto
  have se: "SEModule \<in> set (classes m)"
    using ch SEModule_in_make_layer [OF ml] by (rule child_classes)
  from SENet_init_InrD [OF assms] obtain hs where
    hw: "(''highway_layers'', ModuleList_of hs) \<in> set (children m)"
    and l: "length hs = 2" and h: "list_all (\<lambda>h. HighwayMLP_init fw (512 * expansion blk) = Inr h) hs"
    and at: "(''attention_layer'', Module Attention [(''feature_dim'', 256),
                     (''step_dim'', 2048), (''bias'', 1)] []) \<in> set (children m)"
    by auto
  from l h have "HighwayMLP_init fw (512 * expansion blk) = Inr (hs ! 0)"
    by (simp add: list_all_length)
  then have "cls (hs ! 0) = HighwayMLP"
    by (rule HighwayMLP_init_class)
  with cls_in_classes [of "hs ! 0"] have "HighwayMLP \<in> set (classes (hs ! 0))" by simp
  moreover have "(str 0, hs ! 0) \<in> set (children (ModuleList_of hs))"
    using l by (intro nth_child_ModuleList_of) simp
  ultimately have "HighwayMLP \<in> set (classes (ModuleList_of hs))"
    by (rule child_classes [rotated])
  with hw have "HighwayMLP \<in> set (classes m)" by (rule child_classes)
  moreover have "Attention \<in> set (classes m)"
    using at by (rule child_classes) (simp add: classes_Module)
  ultimately show ?thesis using se by simp
qed

lemma SENet_forward_highway_layers:
  "SENet_forward (self\<lparr>highway_layers := hs\<rparr>) x = SENet_forward self x"
  by (simp add: SENet_forward_def forward_features_def logits_def)

lemma Bottleneck_forward_same_shape:
  assumes m: "main_path self x = Inr m" "is_ten3 n c l m" and l: "0 < l"
    and i: "SEModule_inst c r (se_module self)"
    and s: "skip_connection self x = Inr residual" "is_ten3 n c l residual"
  shows "\<exists>g. SE_gate (se_module self) m = Inr g
             \<and> Bottleneck_forward self x
                 = Inr (ReLU_forward (map2 (map2 (map2 (+))) (rescale m g) residual))"
proof -
  from SEModule_forward_gate_rescale [OF i m(2) l]
  obtain g where g: "SE_gate (se_module self) m = Inr g"
    and f: "SEModule_forward (se_module self) m = Inr (rescale m g)"
    and sh: "is_ten3 n c l (rescale m g)"
    by blast
  have "bten3 add (rescale m g) residual = Inr (map2 (map2 (map2 (+))) (rescale m g) residual)"
    using sh s(2) by (intro bten3_pure) (simp_all add: add_def)
  then have "Bottleneck_forward self x
             = Inr (ReLU_forward (map2 (map2 (map2 (+))) (rescale m g) residual))"
    unfolding Bottleneck_forward_residual_sum residual_sum_def
    by (simp only: m(1) s(1) f and_then_Inr pure_layer_def)
  with g show ?thesis by blast
qed

lemma exp_tanh_1_neq_1: "exp (tanh (1::real)) \<noteq> 1"
  by simp

lemma attention_layer_contributes:
  "\<exists>self a x. SENet_forward (self\<lparr>attention_layer := a\<rparr>) x \<noteq> SENet_forward self x"
proof -
  let ?lin = "\<lparr>in_features = 2, out_features = 2, lin_weight = [[1, 0], [0, 1]],
               lin_bias = [0, 0]\<rparr>"
  let ?a0 = "\<lparr>bias = True, feature_dim = 2, step_dim = 2, weight = [[0], [0]], b = [0, 0]\<rparr>"
  let ?a1 = "\<lparr>bias = True, feature_dim = 2, step_dim = 2, weight = [[1], [0]], b = [0, 0]\<rparr>"
  let ?self = "\<lparr>inplanes = 64, num_classes = 9, drop_rate = 0, layer0 = [], layer1 = [],
     layer2 = [], layer3 = [], layer4 = [], avg_pool = Inr, num_features = 2048,
     highway_number = 2, highway_layers = [], last_linear = ?lin,
     lstm = (\<lambda>x. Inr (x, x, x)), gru = (\<lambda>x. Inr (x, x)), attention_layer = ?a0\<rparr>"
  let ?x = "[[[0, 0], [1, 0]]] :: ten3"
  let ?e = "exp (tanh (1::real))"
  have x: "is_ten3 1 2 2 ?x" by (simp add: is_ten3_def is_mat_def)
  have a0: "Attention_forward ?a0 ?x None = Inr (map (weighted_sum ?a0) ?x)"
    using x by (intro Attention_forward_rows [of 2 2 _ 1]) (simp_all add: Attention_inst_def is_mat_def)
  have a1: "Attention_forward ?a1 ?x None = Inr (map (weighted_sum ?a1) ?x)"
    using x by (intro Attention_forward_rows [of 2 2 _ 1]) (simp_all add: Attention_inst_def is_mat_def)
  have w0: "map (weighted_sum ?a0) ?x = [[1 / 2 + 1 / 10 ^ 10, 0]]"
    by (simp add: weighted_sum_def coefficient_def score_def dot_def column_def lessThan_Suc
        numeral_2_eq_2)
  have w1: "map (weighted_sum ?a1) ?x = [[?e / (1 + ?e) + 1 / 10 ^ 10, 0]]"
    by (simp add: weighted_sum_def coefficient_def score_def dot_def column_def lessThan_Suc
        numeral_2_eq_2)
  note r0 = a0 [unfolded w0] and r1 = a1 [unfolded w1]
  have f0: "SENet_forward ?self ?x = Inr [[1 / 2 + 1 / 10 ^ 10, 0]]"
    by (simp add: SENet_forward_def forward_features_def logits_def and_then_Inr r0
        Linear_forward_def dot_def)
  have f1: "SENet_forward (?self\<lparr>attention_layer := ?a1\<rparr>) ?x = Inr [[?e / (1 + ?e) + 1 / 10 ^ 10, 0]]"
    by (simp add: SENet_forward_def forward_features_def logits_def and_then_Inr r1
        Linear_forward_def dot_def)
  have p: "0 < ?e" by simp
  have "?e / (1 + ?e) \<noteq> 1 / 2"
    using exp_tanh_1_neq_1 p by (simp add: field_simps)
  then have "?e / (1 + ?e) + 1 / 10 ^ 10 \<noteq> 1 / 2 + 1 / 10 ^ 10"
    by (simp only: add_right_cancel simp_thms)
  then have "SENet_forward (?self\<lparr>attention_layer := ?a1\<rparr>) ?x \<noteq> SENet_forward ?self ?x"
    unfolding f0 f1 by (simp only: sum.inject list.inject simp_thms)
  then show ?thesis by blast
qed

lemma sigmoid_pos: "0 < sigmoid v"
  by (simp add: sigmoid_def add_pos_pos)

lemma sigmoid_1_neq_0: "sigmoid 1 \<noteq> sigmoid 0"
  by (simp add: sigmoid_def)

lemma relu_nonneg: "0 \<le> v \<Longrightarrow> relu v = v"
  by (simp add: relu_def)

lemma toy_block_forward:
  fixes c :: real
  defines "blk \<equiv> \<lparr>conv1 = Inr, bn1 = Inr, conv2 = Inr, bn2 = Inr, conv3 = Inr, bn3 = Inr,
      se_module =
        \<lparr>fc1 = \<lparr>in_channels = 2, out_channels = 2, conv_weight = [[1, 0], [0, 1]],
               conv_bias = [0, 0]\<rparr>,
         fc2 = \<lparr>in_channels = 2, out_channels = 2, conv_weight = [[0, 0], [0, 0]],
               conv_bias = [c, c]\<rparr>\<rparr>,
      downsample = None\<rparr>"
  shows "Bottleneck_forward blk [[[2, - 4], [6, 8]]]
         = Inr [[[2 * sigmoid c + 2, 0], [6 * sigmoid c + 6, 8 * sigmoid c + 8]]]"
proof -
  let ?x = "[[[2, - 4], [6, 8]]] :: ten3"
  let ?m = "[[[2, 0], [6, 8]]] :: ten3"
  have m: "main_path blk ?x = Inr ?m"
    by (simp add: blk_def main_path_def followed_by_def pure_layer_def and_then_Inr
        ReLU_forward_def relu_def)
  have sh: "is_ten3 1 2 2 ?m" "is_ten3 1 2 2 ?x"
    by (simp_all add: is_ten3_def is_mat_def)
  have i: "SEModule_inst 2 1 (se_module blk)"
    by (simp add: blk_def SEModule_inst_def Conv1d_k1_inst_def is_mat_def)
  have s: "skip_connection blk ?x = Inr ?x"
    by (simp add: blk_def skip_connection_def)
  have g: "SE_gate (se_module blk) ?m = Inr [[[sigmoid c], [sigmoid c]]]"
    by (simp add: blk_def SE_gate_def AdaptiveAvgPool1d_1_def Conv1d_k1_forward_def ncols_def
        column_def dot_def ReLU_forward_def Sigmoid_forward_def relu_def and_then_Inr)
  from Bottleneck_forward_same_shape [OF m sh(1) _ i s sh(2)] g
  have "Bottleneck_forward blk ?x
        = Inr (ReLU_forward (map2 (map2 (map2 (+)))
                (rescale ?m [[[sigmoid c], [sigmoid c]]]) ?x))"
    by auto
  moreover have "0 \<le> 2 * sigmoid c + 2" "0 \<le> 6 * sigmoid c + 6" "0 \<le> 8 * sigmoid c + 8"
    using sigmoid_pos [of c] by simp_all
  ultimately show ?thesis
    by (simp add: rescale_def upt_conv_Cons ReLU_forward_def relu_nonneg)
      (simp add: relu_def)
qed

lemma toy_attention_forward:
  fixes s :: real
  shows "Attention_forward
           \<lparr>bias = True, feature_dim = 2, step_dim = 2, weight = [[0], [0]], b = [0, 0]\<rparr>
           [[[2 * s + 2, 0], [6 * s + 6, 8 * s + 8]]] None
         = Inr [[(1 / 2 + 1 / 10 ^ 10) * (8 * s + 8), (1 / 2 + 1 / 10 ^ 10) * (8 * s + 8)]]"
proof -
  let ?a0 = "\<lparr>bias = True, feature_dim = 2, step_dim = 2, weight = [[0], [0]], b = [0, 0]\<rparr>"
  let ?xb = "[[2 * s + 2, 0], [6 * s + 6, 8 * s + 8]] :: mat"
  define k :: real where "k = 1 / 2 + 1 / 10 ^ 10"
  have c: "coefficient ?a0 ?xb 0 = k" "coefficient ?a0 ?xb (Suc 0) = k"
    by (simp_all add: coefficient_def score_def dot_def column_def lessThan_Suc numeral_2_eq_2
        k_def)
  have "weighted_sum ?a0 ?xb
        = [coefficient ?a0 ?xb 0 * (2 * s + 2) + coefficient ?a0 ?xb (Suc 0) * (6 * s + 6),
           coefficient ?a0 ?xb 0 * 0 + coefficient ?a0 ?xb (Suc 0) * (8 * s + 8)]"
    by (simp add: weighted_sum_def lessThan_Suc numeral_2_eq_2 upt_conv_Cons)
  also have "\<dots> = [k * (8 * s + 8), k * (8 * s + 8)]"
    unfolding c by (simp add: algebra_simps)
  finally have w: "weighted_sum ?a0 ?xb = [k * (8 * s + 8), k * (8 * s + 8)]" .
  have "is_ten3 1 2 2 [?xb]" by (simp add: is_ten3_def is_mat_def)
  then have "Attention_forward ?a0 [?xb] None = Inr (map (weighted_sum ?a0) [?xb])"
    by (intro Attention_forward_rows [of 2 2 _ 1]) (simp_all add: Attention_inst_def is_mat_def)
  then show ?thesis
    unfolding list.map w k_def .
qed

lemma se_module_contributes:
  "\<exists>self blk se x.
      SENet_forward (self\<lparr>layer1 := [Bottleneck_forward (blk\<lparr>se_module := se\<rparr>)]\<rparr>) x
      \<noteq> SENet_forward (self\<lparr>layer1 := [Bottleneck_forward blk]\<rparr>) x"
proof -
  let ?lin = "\<lparr>in_features = 2, out_features = 2, lin_weight = [[1, 0], [0, 1]],
               lin_bias = [0, 0]\<rparr>"
  let ?a0 = "\<lparr>bias = True, feature_dim = 2, step_dim = 2, weight = [[0], [0]], b = [0, 0]\<rparr>"
  let ?self = "\<lparr>inplanes = 64, num_classes = 9, drop_rate = 0, layer0 = [], layer1 = [],
     layer2 = [], layer3 = [], layer4 = [], avg_pool = Inr, num_features = 2048,
     highway_number = 2, highway_layers = [], last_linear = ?lin,
     lstm = (\<lambda>x. Inr (x, x, x)), gru = (\<lambda>x. Inr (x, x)), attention_layer = ?a0\<rparr>"
  let ?se = "\<lambda>c :: real.
        \<lparr>fc1 = \<lparr>in_channels = 2, out_channels = 2, conv_weight = [[1, 0], [0, 1]],
               conv_bias = [0, 0]\<rparr>,
         fc2 = \<lparr>in_channels = 2, out_channels = 2, conv_weight = [[0, 0], [0, 0]],
               conv_bias = [c, c]\<rparr>\<rparr>"
  let ?blk = "\<lambda>c :: real. \<lparr>conv1 = Inr, bn1 = Inr, conv2 = Inr, bn2 = Inr, conv3 = Inr,
      bn3 = Inr, se_module = ?se c, downsample = None\<rparr>"
  let ?x = "[[[2, - 4], [6, 8]]] :: ten3"
  define k :: real where "k = 1 / 2 + 1 / 10 ^ 10"
  have B: "Bottleneck_forward (?blk c) ?x
           = Inr [[[2 * sigmoid c + 2, 0], [6 * sigmoid c + 6, 8 * sigmoid c + 8]]]" for c
    by (rule toy_block_forward)
  note A = toy_attention_forward [folded k_def]
  have L: "Linear_forward ?lin [[u, v]] = Inr [[u, v]]" for u v
    by (simp add: Linear_forward_def dot_def)
  have F: "SENet_forward (?self\<lparr>layer1 := [Bottleneck_forward (?blk c)]\<rparr>) ?x
           = Inr [[k * (8 * sigmoid c + 8), k * (8 * sigmoid c + 8)]]" for c
    unfolding SENet_forward_def forward_features_def logits_def Let_def
    by (simp only: SENet.simps Sequential_forward.simps and_then_Inr B A L fst_conv)
  have "0 < k" by (simp add: k_def)
  then have "k * (8 * sigmoid 1 + 8) \<noteq> k * (8 * sigmoid 0 + 8)"
    using sigmoid_1_neq_0 by simp
  then have ne: "SENet_forward (?self\<lparr>layer1 := [Bottleneck_forward (?blk 1)]\<rparr>) ?x
             \<noteq> SENet_forward (?self\<lparr>layer1 := [Bottleneck_forward (?blk 0)]\<rparr>) ?x"
    unfolding F by (simp only: sum.inject list.inject simp_thms)
  have e: "(?blk 0)\<lparr>se_module := ?se 1\<rparr> = ?blk 1" by simp
  from ne [folded e] show ?thesis by blast
qed


section \<open>Claims\<close>

text \<open>
  Claim C1. The claim is that the last dimension of the output of \<^verbatim>\<open>forward\<close> is the
  declared \<open>num_classes\<close>. The constructor stores \<open>num_classes\<close> and builds
  \<^verbatim>\<open>last_linear = nn.Linear(256, 9)\<close> whatever its value, so that every output row of
  \<^verbatim>\<open>forward\<close> has 9 entries: the claim holds for \<open>num_classes = 9\<close> only.
\<close>

theorem last_linear_ignores_num_classes:
  "(SENet_init fw pool blk layers g r dr in_chans inp input_3x3 k pd nc gp = Inr (m, calls)
      \<longrightarrow> attr ''num_classes'' m = Some nc
          \<and> child ''last_linear'' m = Some (Module Linear (Linear_args 256 9) []))
   \<and> (Linear_inst 256 9 (last_linear self) \<and> SENet_forward self x = Inr y
      \<longrightarrow> list_all (\<lambda>row. length row = 9) y)"
proof -
  have "attr ''num_classes'' m = Some nc
        \<and> child ''last_linear'' m = Some (Module Linear (Linear_args 256 9) [])"
    if "SENet_init fw pool blk layers g r dr in_chans inp input_3x3 k pd nc gp = Inr (m, calls)"
    using SENet_init_InrD [OF that] by (auto simp: attr_def child_def)
  moreover have "list_all (\<lambda>row. length row = 9) y"
    if "Linear_inst 256 9 (last_linear self) \<and> SENet_forward self x = Inr y"
    using that SENet_forward_width [of 256 9 self x y] by simp
  ultimately show ?thesis by blast
qed

theorem last_linear_ignores_num_classes_witness:
  "\<exists>m calls. seresnet50 (\<lambda>c a. True) (\<lambda>g. Inr (Module SelectAdaptivePool1d [] [])) 1000 12
                = Inr (m, calls)
       \<and> attr ''num_classes'' m = Some 1000
       \<and> child ''last_linear'' m
           = Some (Module Linear [(''in_features'', 256), (''out_features'', 9)] [])"
proof -
  let ?pool = "\<lambda>g :: string. (Inr (Module SelectAdaptivePool1d [] []) :: error + module)"
  have "case seresnet50 (\<lambda>c a. True) ?pool 1000 12 of Inl e \<Rightarrow> False | Inr v \<Rightarrow> True"
    by code_simp
  then obtain m calls where r: "seresnet50 (\<lambda>c a. True) ?pool 1000 12 = Inr (m, calls)"
    by (cases "seresnet50 (\<lambda>c a. True) ?pool 1000 12") auto
  from last_linear_ignores_num_classes
         [of "\<lambda>c a. True" ?pool SEResNetBottleneck "[3, 4, 6, 3]" 1 16 "2 / 10" 12 64 False 1 0
             1000 "''max''" m calls]
       r
  show ?thesis by (auto simp: seresnet50_def Linear_args_def)
qed

text \<open>
  The claim C2 as stated fails. \<^verbatim>\<open>SENet.logits\<close> never calls \<open>self.highway_layers\<close>
  (the loop over them is commented out): whatever Highway layers a network holds, on no
  input does \<^verbatim>\<open>forward\<close> return another value.
\<close>

theorem highway_layers_do_not_contribute:
  "\<not> (\<exists>self hs x. SENet_forward (self\<lparr>highway_layers := hs\<rparr>) x \<noteq> SENet_forward self x)"
  by (simp add: SENet_forward_highway_layers)

text \<open>
  Claim C2, as amended. Of the five building blocks that the specification names, a
  network built by \<^verbatim>\<open>SENet.__init__\<close> contains three and its \<^verbatim>\<open>forward\<close> uses two.

  \<^item> No module of the network is a \<^verbatim>\<open>CBAM_Module\<close> or an \<^verbatim>\<open>SCSEModule\<close>: the two classes
    are defined and never instantiated (as long as the pooling module of
    \<^verbatim>\<open>models/utils.py\<close> holds none).
  \<^item> The network holds \<^verbatim>\<open>SEModule\<close>, \<^verbatim>\<open>Attention\<close> and \<^verbatim>\<open>HighwayMLP\<close> modules.
  \<^item> The Highway layers are built and never called: \<^verbatim>\<open>forward\<close> does not depend on
    them.
  \<^item> The attention layer and the SE module of a block contribute: there are networks
    and inputs on which another attention layer, and another SE module, give another
    value of \<^verbatim>\<open>forward\<close>.
\<close>

theorem blocks_of_the_forward_pass:
  assumes "SENet_init fw pool blk layers g r dr in_chans inp input_3x3 k pd nc gp
           = Inr (m, calls)"
    and "\<And>p. pool gp = Inr p \<Longrightarrow> free_of [CBAM_Module, SCSEModule] p"
  shows "free_of [CBAM_Module, SCSEModule] m
         \<and> SEModule \<in> set (classes m) \<and> Attention \<in> set (classes m)
         \<and> HighwayMLP \<in> set (classes m)
         \<and> (\<forall>self hs x. SENet_forward (self\<lparr>highway_layers := hs\<rparr>) x = SENet_forward self x)
         \<and> (\<exists>self a x. SENet_forward (self\<lparr>attention_layer := a\<rparr>) x \<noteq> SENet_forward self x)
         \<and> (\<exists>self b se x.
               SENet_forward (self\<lparr>layer1 := [Bottleneck_forward (b\<lparr>se_module := se\<rparr>)]\<rparr>) x
               \<noteq> SENet_forward (self\<lparr>layer1 := [Bottleneck_forward b]\<rparr>) x)"
proof -
  have "free_of [CBAM_Module, SCSEModule] m"
    using assms by (rule free_of_SENet_init) simp_all
  moreover note SENet_init_classes [OF assms(1)]
  moreover have "\<forall>self hs x. SENet_forward (self\<lparr>highway_layers := hs\<rparr>) x
                   = SENet_forward self x"
    by (simp add: SENet_forward_highway_layers)
  moreover note attention_layer_contributes se_module_contributes
  ultimately show ?thesis by (simp only: simp_thms)
qed

theorem blocks_of_the_forward_pass_witness:
  "\<exists>m calls. seresnet50 (\<lambda>c a. True) (\<lambda>g. Inr (Module SelectAdaptivePool1d [] [])) 9 12
                = Inr (m, calls)
       \<and> free_of [CBAM_Module, SCSEModule] m
       \<and> SEModule \<in> set (classes m) \<and> Attention \<in> set (classes m)
       \<and> HighwayMLP \<in> set (classes m)"
proof -
  let ?pool = "\<lambda>g :: string. (Inr (Module SelectAdaptivePool1d [] []) :: error + module)"
  have "case seresnet50 (\<lambda>c a. True) ?pool 9 12 of Inl e \<Rightarrow> False | Inr v \<Rightarrow> True"
    by code_simp
  then obtain m calls where r: "seresnet50 (\<lambda>c a. True) ?pool 9 12 = Inr (m, calls)"
    by (cases "seresnet50 (\<lambda>c a. True) ?pool 9 12") auto
  have p: "\<And>p. ?pool ''max'' = Inr p \<Longrightarrow> free_of [CBAM_Module, SCSEModule] p"
    by (auto simp: free_of_Module)
  from blocks_of_the_forward_pass [OF r [unfolded seresnet50_def] p] r
  show ?thesis by blast
qed

text \<open>
  Claim C3. For every \<^verbatim>\<open>SENet\<close> instance and every input, \<^verbatim>\<open>forward\<close> is the
  composition \<open>last_linear (attention_layer (first output of gru (layer4 (layer3 (layer2
  (layer1 (layer0 x)))))))\<close>, a failure of a stage being the failure of the whole; no
  other stage stands in between.
\<close>

theorem SENet_forward_topology: "SENet_forward self x = topology self x"
  by (simp add: SENet_forward_def forward_features_def logits_def topology_def followed_by_def
      pure_layer_def Let_def and_then_def split: sum.splits)

text \<open>
  The claim C4 as stated fails: \<^verbatim>\<open>SEModule(16, 16)\<close> raises the \<open>AssertionError\<close> of
  the repository, before the framework is reached.
\<close>

theorem SEModule_init_asserts: "SEModule_init (\<lambda>c a. True) 16 16 = Inl AssertionError"
  by (simp add: SEModule_init_def)

text \<open>
  Claim C4, as amended. The claim says that no operation of the repository makes a check
  of its own; \<^verbatim>\<open>SEModule.__init__\<close> asserts \<open>channels > reduction\<close>. That assertion
  is the only check of the file, and the theorem says where it can be met, operation by
  operation.

  \<^item> \<^verbatim>\<open>SEModule.__init__\<close> fails with \<open>AssertionError\<close> exactly when
    \<open>channels \<le> reduction\<close>, whatever the framework accepts.
  \<^item> The constructor of a residual block (\<^verbatim>\<open>SEBottleneck\<close>, \<^verbatim>\<open>SEResNetBottleneck\<close>,
    \<^verbatim>\<open>SEResNeXtBottleneck\<close>, \<^verbatim>\<open>SEResNetBlock\<close>) and \<^verbatim>\<open>SENet._make_layer\<close> fail with it
    only when the channels of the SE module, \<open>planes * expansion\<close>, are at most
    \<open>reduction\<close>.
  \<^item> \<^verbatim>\<open>SENet.__init__\<close> fails with it only when \<open>64 * expansion \<le> reduction\<close> (the
    first stage has 64 planes) or when the pooling module of \<^verbatim>\<open>models/utils.py\<close>
    fails with it.
  \<^item> None of the nine factory functions (all of them pass \<open>reduction = 16\<close>) fails
    with it, unless that pooling module does; \<^verbatim>\<open>reset_classifier\<close> fails with it only
    when the pooling module or its \<^verbatim>\<open>feat_mult\<close> does.
  \<^item> \<^verbatim>\<open>conv3x3\<close> and the constructors of \<^verbatim>\<open>Attention\<close>, \<^verbatim>\<open>HighwayMLP\<close>,
    \<^verbatim>\<open>CBAM_Module\<close> and \<^verbatim>\<open>SCSEModule\<close> never fail with it.
  \<^item> The forward passes of \<^verbatim>\<open>Attention\<close>, \<^verbatim>\<open>SEModule\<close>, \<^verbatim>\<open>CBAM_Module\<close>,
    \<^verbatim>\<open>SCSEModule\<close> and of \<^verbatim>\<open>nn.Linear\<close> never fail with it.
  \<^item> The forward passes of \<^verbatim>\<open>HighwayMLP\<close>, of the blocks, of \<^verbatim>\<open>nn.Sequential\<close> and of
    \<^verbatim>\<open>SENet\<close> (\<^verbatim>\<open>forward_features\<close>, \<^verbatim>\<open>logits\<close>, \<^verbatim>\<open>forward\<close>) never fail with it
    when the callables and layers of the framework that they hold do not.

  \<^verbatim>\<open>_weight_init\<close> and \<^verbatim>\<open>get_classifier\<close> have no failure at all. Every other failure
  is the framework's, or Python's own (\<open>ZeroDivisionError\<close> of \<open>channels // 0\<close>,
  \<open>IndexError\<close> of \<open>layers[i]\<close>, \<open>AttributeError\<close>).
\<close>

theorem only_check_is_SEModule_assertion:
  "(SEModule_init fw channels reduction = Inl AssertionError \<longleftrightarrow> channels \<le> reduction)
   \<and> (block_init fw blk i p g r s ds = Inl AssertionError \<longrightarrow> p * expansion blk \<le> r)
   \<and> (make_layer fw i blk p n g r s k pd = Inl AssertionError \<longrightarrow> p * expansion blk \<le> r)
   \<and> (SENet_init fw pool blk layers g r dr ic inp stem k pd nc gp = Inl AssertionError
        \<longrightarrow> 64 * expansion blk \<le> r \<or> pool gp = Inl AssertionError)
   \<and> (pool ''max'' \<noteq> Inl AssertionError
        \<longrightarrow> list_all (\<lambda>f. f fw pool nc ic \<noteq> Inl AssertionError) factories)
   \<and> (reset_classifier fw pool fm m nc gp = Inl AssertionError
        \<longrightarrow> pool gp = Inl AssertionError
            \<or> (\<exists>q. pool gp = Inr q \<and> fm q = Inl AssertionError))
   \<and> conv3x3 fw i p s \<noteq> Inl AssertionError
   \<and> Attention_init fw fd sd wb \<noteq> Inl AssertionError
   \<and> HighwayMLP_init fw n \<noteq> Inl AssertionError
   \<and> CBAM_Module_init fw channels reduction \<noteq> Inl AssertionError
   \<and> SCSEModule_init fw channels reduction \<noteq> Inl AssertionError
   \<and> Attention_forward att x msk \<noteq> Inl AssertionError
   \<and> SEModule_forward se x \<noteq> Inl AssertionError
   \<and> CBAM_Module_forward cb x \<noteq> Inl AssertionError
   \<and> SCSEModule_forward sc x \<noteq> Inl AssertionError
   \<and> Linear_forward l y \<noteq> Inl AssertionError
   \<and> (list_all raises_no_assertion (HighwayMLP_callables h)
        \<longrightarrow> raises_no_assertion (HighwayMLP_forward h))
   \<and> (list_all raises_no_assertion (Bottleneck_layers bk)
        \<longrightarrow> raises_no_assertion (Bottleneck_forward bk))
   \<and> (list_all raises_no_assertion (SEResNetBlock_layers rb)
        \<longrightarrow> raises_no_assertion (SEResNetBlock_forward rb))
   \<and> (list_all raises_no_assertion fs \<longrightarrow> raises_no_assertion (Sequential_forward fs))
   \<and> (list_all raises_no_assertion (SENet_layers net)
        \<longrightarrow> raises_no_assertion (forward_features net))
   \<and> (raises_no_assertion (gru net) \<longrightarrow> raises_no_assertion (logits net))
   \<and> (list_all raises_no_assertion (SENet_layers net) \<and> raises_no_assertion (gru net)
        \<longrightarrow> raises_no_assertion (SENet_forward net))"
proof -
  note SEModule_init_AssertionError [of fw channels reduction]
  moreover have "block_init fw blk i p g r s ds = Inl AssertionError \<longrightarrow> p * expansion blk \<le> r"
    by (blast dest: block_init_AssertionError)
  moreover have "make_layer fw i blk p n g r s k pd = Inl AssertionError
                 \<longrightarrow> p * expansion blk \<le> r"
    by (blast dest: make_layer_AssertionError)
  moreover have "SENet_init fw pool blk layers g r dr ic inp stem k pd nc gp = Inl AssertionError
                 \<longrightarrow> 64 * expansion blk \<le> r \<or> pool gp = Inl AssertionError"
    by (blast dest: SENet_init_AssertionError)
  moreover have "pool ''max'' \<noteq> Inl AssertionError
                 \<longrightarrow> list_all (\<lambda>f. f fw pool nc ic \<noteq> Inl AssertionError) factories"
    by (blast intro: factories_no_assert)
  moreover have "reset_classifier fw pool fm m nc gp = Inl AssertionError
                 \<longrightarrow> pool gp = Inl AssertionError
                     \<or> (\<exists>q. pool gp = Inr q \<and> fm q = Inl AssertionError)"
    by (blast dest: reset_classifier_AssertionError)
  moreover note conv3x3_no_assert [of fw i p s] Attention_init_no_assert [of fw fd sd wb]
    HighwayMLP_init_no_assert [of fw n] CBAM_Module_init_no_assert [of fw channels reduction]
    SCSEModule_init_no_assert [of fw channels reduction]
    Attention_forward_no_assert [of att x msk] SEModule_forward_no_assert [of se x]
    CBAM_Module_forward_no_assert [of cb x] SCSEModule_forward_no_assert [of sc x]
    framework_ops_no_assert(3) [of l y]
  moreover have "list_all raises_no_assertion (HighwayMLP_callables h)
                 \<longrightarrow> raises_no_assertion (HighwayMLP_forward h)"
    by (blast intro: HighwayMLP_forward_no_assert)
  moreover have "list_all raises_no_assertion (Bottleneck_layers bk)
                 \<longrightarrow> raises_no_assertion (Bottleneck_forward bk)"
    by (blast intro: Bottleneck_forward_no_assert)
  moreover have "list_all raises_no_assertion (SEResNetBlock_layers rb)
                 \<longrightarrow> raises_no_assertion (SEResNetBlock_forward rb)"
    by (blast intro: SEResNetBlock_forward_no_assert)
  moreover have "list_all raises_no_assertion fs \<longrightarrow> raises_no_assertion (Sequential_forward fs)"
    by (blast intro: Sequential_forward_raises_no_assertion)
  moreover have "list_all raises_no_assertion (SENet_layers net)
                 \<longrightarrow> raises_no_assertion (forward_features net)"
    by (blast intro: forward_features_no_assert)
  moreover have "raises_no_assertion (gru net) \<longrightarrow> raises_no_assertion (logits net)"
    by (blast intro: logits_no_assert)
  moreover have "list_all raises_no_assertion (SENet_layers net) \<and> raises_no_assertion (gru net)
                 \<longrightarrow> raises_no_assertion (SENet_forward net)"
    by (blast intro: SENet_forward_no_assert)
  ultimately show ?thesis by (intro conjI)
qed

theorem only_check_is_SEModule_assertion_witness:
  "SEModule_init (\<lambda>c a. True) 8 16 = Inl AssertionError
   \<and> block_init (\<lambda>c a. True) SEResNetBlock 64 16 1 16 1 None = Inl AssertionError
   \<and> make_layer (\<lambda>c a. True) 64 SEResNetBlock 16 2 1 16 1 1 0 = Inl AssertionError
   \<and> SENet_init (\<lambda>c a. True) (\<lambda>g. Inr (Module SelectAdaptivePool1d [] [])) SEResNetBlock
        [1, 1, 1, 1] 1 64 (2 / 10) 12 64 False 1 0 9 ''max'' = Inl AssertionError
   \<and> 16 * expansion SEResNetBlock \<le> 16 \<and> 64 * expansion SEResNetBlock \<le> 64
   \<and> SEModule_init (\<lambda>c a. True) 64 16 \<noteq> Inl AssertionError
   \<and> list_all (\<lambda>f. f (\<lambda>c a. True) (\<lambda>g. Inr (Module SelectAdaptivePool1d [] [])) 9 12
                  \<noteq> Inl AssertionError) factories
   \<and> raises_no_assertion
        (HighwayMLP_forward
           \<lparr>activation_function = Inr, gate_activation = Inr,
            normal_layer = \<lparr>in_features = 1, out_features = 1, lin_weight = [[1]],
                            lin_bias = [0]\<rparr>,
            gate_layer = \<lparr>in_features = 1, out_features = 1, lin_weight = [[1]],
                          lin_bias = [0]\<rparr>\<rparr>)
   \<and> raises_no_assertion
        (SENet_forward
           \<lparr>inplanes = 64, num_classes = 9, drop_rate = 2 / 10,
            layer0 = [Inr],
            layer1 = [Bottleneck_forward
                        \<lparr>conv1 = Inr, bn1 = Inr, conv2 = Inr, bn2 = Inr, conv3 = Inr,
                         bn3 = Inr,
                         se_module =
                           \<lparr>fc1 = \<lparr>in_channels = 2, out_channels = 1,
                                  conv_weight = [[1, 1]], conv_bias = [0]\<rparr>,
                            fc2 = \<lparr>in_channels = 1, out_channels = 2,
                                  conv_weight = [[1], [1]], conv_bias = [0, 0]\<rparr>\<rparr>,
                         downsample = Some Inr\<rparr>],
            layer2 = [SEResNetBlock_forward
                        \<lparr>blk_conv1 = Inr, blk_bn1 = Inr, blk_conv2 = Inr, blk_bn2 = Inr,
                         blk_se_module =
                           \<lparr>fc1 = \<lparr>in_channels = 2, out_channels = 1,
                                  conv_weight = [[1, 1]], conv_bias = [0]\<rparr>,
                            fc2 = \<lparr>in_channels = 1, out_channels = 2,
                                  conv_weight = [[1], [1]], conv_bias = [0, 0]\<rparr>\<rparr>,
                         blk_downsample = None\<rparr>],
            layer3 = [], layer4 = [],
            avg_pool = Inr, num_features = 2048, highway_number = 2, highway_layers = [],
            last_linear = \<lparr>in_features = 2, out_features = 1, lin_weight = [[1, 1]],
                           lin_bias = [0]\<rparr>,
            lstm = (\<lambda>t. Inr (t, t, t)), gru = (\<lambda>t. Inr (t, t)),
            attention_layer = \<lparr>bias = True, feature_dim = 2, step_dim = 2,
                               weight = [[1], [1]], b = [0, 0]\<rparr>\<rparr>)"
proof -
  let ?fw = "\<lambda>(c :: cls) (a :: (string \<times> int) list). True"
  let ?pool = "\<lambda>g :: string. (Inr (Module SelectAdaptivePool1d [] []) :: error + module)"
  let ?se = "\<lparr>fc1 = \<lparr>in_channels = 2, out_channels = 1, conv_weight = [[1, 1]],
                     conv_bias = [0]\<rparr>,
              fc2 = \<lparr>in_channels = 1, out_channels = 2, conv_weight = [[1], [1]],
                     conv_bias = [0, 0]\<rparr>\<rparr>"
  let ?lin = "\<lparr>in_features = 1, out_features = 1, lin_weight = [[1]], lin_bias = [0]\<rparr>"
  let ?h = "\<lparr>activation_function = Inr, gate_activation = Inr, normal_layer = ?lin,
             gate_layer = ?lin\<rparr>"
  let ?bk = "\<lparr>conv1 = Inr, bn1 = Inr, conv2 = Inr, bn2 = Inr, conv3 = Inr, bn3 = Inr,
              se_module = ?se, downsample = Some Inr\<rparr>"
  let ?rb = "\<lparr>blk_conv1 = Inr, blk_bn1 = Inr, blk_conv2 = Inr, blk_bn2 = Inr,
              blk_se_module = ?se, blk_downsample = None\<rparr>"
  let ?net = "\<lparr>inplanes = 64, num_classes = 9, drop_rate = 2 / 10,
               layer0 = [Inr], layer1 = [Bottleneck_forward ?bk],
               layer2 = [SEResNetBlock_forward ?rb], layer3 = [], layer4 = [],
               avg_pool = Inr, num_features = 2048, highway_number = 2, highway_layers = [],
               last_linear = \<lparr>in_features = 2, out_features = 1, lin_weight = [[1, 1]],
                              lin_bias = [0]\<rparr>,
               lstm = (\<lambda>t. Inr (t, t, t)), gru = (\<lambda>t. Inr (t, t)),
               attention_layer = \<lparr>bias = True, feature_dim = 2, step_dim = 2,
                                  weight = [[1], [1]], b = [0, 0]\<rparr>\<rparr>"
  have inr: "raises_no_assertion (Inr :: ten3 \<Rightarrow> error + ten3)"
    "raises_no_assertion (Inr :: mat \<Rightarrow> error + mat)"
    "raises_no_assertion (\<lambda>t :: ten3. (Inr (t, t) :: error + ten3 \<times> ten3))"
    by (simp_all add: raises_no_assertion_def)
  have se: "SEModule_init ?fw 8 16 = Inl AssertionError"
    by (simp add: SEModule_init_def)
  have bl: "block_init ?fw SEResNetBlock 64 16 1 16 1 None = Inl AssertionError"
    by (simp add: block_init_def SEResNetBlock_init_def SEModule_init_def nn_def and_then_Inr
        and_then_Inl)
  have ml: "make_layer ?fw 64 SEResNetBlock 16 2 1 16 1 1 0 = Inl AssertionError"
    by (simp add: make_layer_def expansion_def block_init_def SEResNetBlock_init_def
        SEModule_init_def nn_def and_then_Inr and_then_Inl)
  have "case SENet_init ?fw ?pool SEResNetBlock [1, 1, 1, 1] 1 64 (2 / 10) 12 64 False 1 0 9
               ''max'' of Inl e \<Rightarrow> e = AssertionError | Inr v \<Rightarrow> False"
    by code_simp
  then have sn: "SENet_init ?fw ?pool SEResNetBlock [1, 1, 1, 1] 1 64 (2 / 10) 12 64 False 1 0 9
               ''max'' = Inl AssertionError"
    by (simp split: sum.splits)
  note t = only_check_is_SEModule_assertion
    [where fw = ?fw and pool = ?pool and blk = SEResNetBlock and channels = 64
       and reduction = 16 and h = ?h and bk = ?bk and rb = ?rb and net = ?net and nc = 9
       and ic = 12]
  note u = only_check_is_SEModule_assertion
    [where fw = ?fw and channels = 8 and reduction = 16 and blk = SEResNetBlock and i = 64
       and p = 16 and n = 2 and g = 1 and r = 16 and s = 1 and k = 1 and pd = 0
       and ds = None]
  note v = only_check_is_SEModule_assertion
    [where fw = ?fw and pool = ?pool and blk = SEResNetBlock and layers = "[1, 1, 1, 1]"
       and g = 1 and r = 64 and dr = "2 / 10" and ic = 12 and inp = 64 and stem = False
       and k = 1 and pd = 0 and nc = 9 and gp = "''max''"]
  have le: "16 * expansion SEResNetBlock \<le> 16"
    using u bl by simp
  have le': "64 * expansion SEResNetBlock \<le> 64"
    using v sn by simp
  have hw: "raises_no_assertion (HighwayMLP_forward ?h)"
    using t inr by (simp add: HighwayMLP_callables_def)
  have b1: "raises_no_assertion (Bottleneck_forward ?bk)"
    using t inr by (simp add: Bottleneck_layers_def)
  have b2: "raises_no_assertion (SEResNetBlock_forward ?rb)"
    using t inr by (simp add: SEResNetBlock_layers_def)
  have net: "raises_no_assertion (SENet_forward ?net)"
    using t inr b1 b2 by (simp add: SENet_layers_def)
  have fa: "list_all (\<lambda>f. f ?fw ?pool 9 12 \<noteq> Inl AssertionError) factories"
    using t by simp
  have s2: "SEModule_init ?fw 64 16 \<noteq> Inl AssertionError"
    using t by simp
  show ?thesis
    using se bl ml sn le le' s2 fa hw net by (intro conjI)
qed

text \<open>
  Claim C5. For an \<^verbatim>\<open>SEModule(channels, reduction)\<close> with \<open>channels > reduction\<close> and an
  input \<open>x\<close> of shape \<open>(batch, channels, length)\<close> with a positive length, the gate
  \<open>g = sigmoid (fc2 (relu (fc1 (avg_pool x))))\<close> has shape \<open>(batch, channels, 1)\<close> and
  \<^verbatim>\<open>forward\<close> returns \<open>x\<close> with every channel multiplied by its gate value; the result
  has the shape of \<open>x\<close>.
\<close>

theorem SEModule_forward_rescales:
  assumes "SEModule_inst c r self" and "is_ten3 n c l x" and "0 < l"
  shows "\<exists>g. SE_gate self x = Inr g \<and> is_ten3 n c 1 g
              \<and> SEModule_forward self x = Inr (rescale x g)
              \<and> is_ten3 n c l (rescale x g)"
  using assms by (rule SEModule_forward_gate_rescale)

theorem SEModule_forward_rescales_witness:
  "SEModule_forward
     \<lparr>fc1 = \<lparr>in_channels = 2, out_channels = 2, conv_weight = [[1, 0], [0, 1]], conv_bias = [0, 0]\<rparr>,
      fc2 = \<lparr>in_channels = 2, out_channels = 2, conv_weight = [[0, 0], [0, 0]], conv_bias = [0, 0]\<rparr>\<rparr>
     [[[2, 4], [6, 8]]]
   = Inr [[[1, 2], [3, 4]]]"
proof -
  let ?se = "\<lparr>fc1 = \<lparr>in_channels = 2, out_channels = 2, conv_weight = [[1, 0], [0, 1]],
                    conv_bias = [0, 0]\<rparr>,
              fc2 = \<lparr>in_channels = 2, out_channels = 2, conv_weight = [[0, 0], [0, 0]],
                    conv_bias = [0, 0]\<rparr>\<rparr>"
  let ?x = "[[[2, 4], [6, 8]]] :: ten3"
  have i: "SEModule_inst 2 1 ?se"
    by (simp add: SEModule_inst_def Conv1d_k1_inst_def is_mat_def)
  have x: "is_ten3 1 2 2 ?x"
    by (simp add: is_ten3_def is_mat_def)
  have g: "SE_gate ?se ?x = Inr [[[1 / 2], [1 / 2]]]"
    by (simp add: SE_gate_def AdaptiveAvgPool1d_1_def Conv1d_k1_forward_def ncols_def
        column_def dot_def ReLU_forward_def Sigmoid_forward_def relu_def sigmoid_def
        and_then_Inr)
  from SEModule_forward_rescales [OF i x] g
  have "SEModule_forward ?se ?x = Inr (rescale ?x [[[1 / 2], [1 / 2]]])"
    by auto
  then show ?thesis
    by (simp add: rescale_def upt_conv_Cons)
qed

text \<open>
  Claim C6. For every block of a class derived from \<^verbatim>\<open>Bottleneck\<close> and every input
  \<open>x\<close>, \<^verbatim>\<open>forward\<close> is \<open>relu (se_module (main_path x) + residual)\<close>, where the main path
  is \<open>conv1, bn1, relu, conv2, bn2, relu, conv3, bn3\<close> and the residual is \<open>downsample x\<close>
  when a downsample is set and \<open>x\<close> otherwise. When the main path and the residual have
  the same shape \<open>(n, c, l)\<close>, the result is, element by element, the ReLU of the main
  path rescaled by the gate plus the residual.
\<close>

theorem Bottleneck_forward_skip:
  "Bottleneck_forward self x = residual_sum self x
   \<and> (main_path self x = Inr m \<and> is_ten3 n c l m \<and> 0 < l
        \<and> SEModule_inst c r (se_module self)
        \<and> skip_connection self x = Inr residual \<and> is_ten3 n c l residual
      \<longrightarrow> (\<exists>g. SE_gate (se_module self) m = Inr g
               \<and> Bottleneck_forward self x
                   = Inr (ReLU_forward (map2 (map2 (map2 (+))) (rescale m g) residual))))"
proof (intro conjI impI)
  show "Bottleneck_forward self x = residual_sum self x"
    by (rule Bottleneck_forward_residual_sum)
next
  assume a: "main_path self x = Inr m \<and> is_ten3 n c l m \<and> 0 < l
        \<and> SEModule_inst c r (se_module self)
        \<and> skip_connection self x = Inr residual \<and> is_ten3 n c l residual"
  then have m: "main_path self x = Inr m" "is_ten3 n c l m" and l: "0 < l"
    and i: "SEModule_inst c r (se_module self)"
    and s: "skip_connection self x = Inr residual" "is_ten3 n c l residual"
    by simp_all
  from SEModule_forward_gate_rescale [OF i m(2) l]
  obtain g where g: "SE_gate (se_module self) m = Inr g"
    and f: "SEModule_forward (se_module self) m = Inr (rescale m g)"
    and sh: "is_ten3 n c l (rescale m g)"
    by blast
  have "bten3 add (rescale m g) residual = Inr (map2 (map2 (map2 (+))) (rescale m g) residual)"
    using sh s(2) by (intro bten3_pure) (simp_all add: add_def)
  then have "Bottleneck_forward self x
             = Inr (ReLU_forward (map2 (map2 (map2 (+))) (rescale m g) residual))"
    unfolding Bottleneck_forward_residual_sum residual_sum_def
    by (simp only: m(1) s(1) f and_then_Inr pure_layer_def)
  with g show "\<exists>g. SE_gate (se_module self) m = Inr g
               \<and> Bottleneck_forward self x
                   = Inr (ReLU_forward (map2 (map2 (map2 (+))) (rescale m g) residual))"
    by blast
qed

theorem Bottleneck_forward_skip_witness:
  "Bottleneck_forward
     \<lparr>conv1 = Inr, bn1 = Inr, conv2 = Inr, bn2 = Inr, conv3 = Inr, bn3 = Inr,
      se_module =
        \<lparr>fc1 = \<lparr>in_channels = 2, out_channels = 2, conv_weight = [[1, 0], [0, 1]],
               conv_bias = [0, 0]\<rparr>,
         fc2 = \<lparr>in_channels = 2, out_channels = 2, conv_weight = [[0, 0], [0, 0]],
               conv_bias = [0, 0]\<rparr>\<rparr>,
      downsample = None\<rparr>
     [[[2, - 4], [6, 8]]]
   = Inr [[[3, 0], [9, 12]]]"
proof -
  let ?se = "\<lparr>fc1 = \<lparr>in_channels = 2, out_channels = 2, conv_weight = [[1, 0], [0, 1]],
                    conv_bias = [0, 0]\<rparr>,
              fc2 = \<lparr>in_channels = 2, out_channels = 2, conv_weight = [[0, 0], [0, 0]],
                    conv_bias = [0, 0]\<rparr>\<rparr>"
  let ?blk = "\<lparr>conv1 = Inr, bn1 = Inr, conv2 = Inr, bn2 = Inr, conv3 = Inr, bn3 = Inr,
               se_module = ?se, downsample = None\<rparr>"
  let ?x = "[[[2, - 4], [6, 8]]] :: ten3"
  let ?m = "[[[2, 0], [6, 8]]] :: ten3"
  have h: "main_path ?blk ?x = Inr ?m \<and> is_ten3 1 2 2 ?m \<and> 0 < (2::nat)
        \<and> SEModule_inst 2 1 (se_module ?blk)
        \<and> skip_connection ?blk ?x = Inr ?x \<and> is_ten3 1 2 2 ?x"
    by (simp add: main_path_def skip_connection_def followed_by_def pure_layer_def
        and_then_Inr ReLU_forward_def relu_def is_ten3_def is_mat_def SEModule_inst_def
        Conv1d_k1_inst_def)
  have g: "SE_gate ?se ?m = Inr [[[1 / 2], [1 / 2]]]"
    by (simp add: SE_gate_def AdaptiveAvgPool1d_1_def Conv1d_k1_forward_def ncols_def
        column_def dot_def ReLU_forward_def Sigmoid_forward_def relu_def sigmoid_def
        and_then_Inr)
  from Bottleneck_forward_skip [of ?blk ?x ?m 1 2 2 1 ?x] h g
  have "Bottleneck_forward ?blk ?x
        = Inr (ReLU_forward (map2 (map2 (map2 (+))) (rescale ?m [[[1 / 2], [1 / 2]]]) ?x))"
    by auto
  then show ?thesis
    by (simp add: rescale_def upt_conv_Cons ReLU_forward_def relu_def)
qed

text \<open>
  Claim C7. Let \<open>h\<close> be the transformed signal \<open>activation_function (normal_layer x)\<close>
  and \<open>g\<close> the gate \<open>gate_activation (gate_layer x)\<close> of a \<^verbatim>\<open>HighwayMLP\<close> on an
  input \<open>x\<close> of shape \<open>(k, n)\<close>, both of the shape of \<open>x\<close>. Then \<^verbatim>\<open>forward\<close> returns
  \<open>g * h + (1 - g) * x\<close> element by element, and the two weights \<open>g\<close> and \<open>1 - g\<close> of
  every coordinate sum to 1.
\<close>

theorem HighwayMLP_forward_mix:
  assumes x: "is_mat k n x"
    and h: "transformed self x = Inr h" "is_mat k n h"
    and g: "gate self x = Inr g" "is_mat k n g"
  shows "HighwayMLP_forward self x
           = Inr (map (\<lambda>i. map (\<lambda>j. g ! i ! j * h ! i ! j + (1 - g ! i ! j) * x ! i ! j) [0..<n])
                   [0..<k])
         \<and> (\<forall>i<k. \<forall>j<n. g ! i ! j + (1 - g ! i ! j) = 1)"
proof -
  let ?ng = "map (map (\<lambda>g. 1 - g)) g"
  have ng: "is_mat k n ?ng" using g(2) by (rule is_mat_map)
  have a: "bmat mul h g = Inr (map2 (map2 (*)) h g)"
    using h(2) g(2) by (intro bmat_pure) (simp_all add: mul_def)
  have c: "bmat mul ?ng x = Inr (map2 (map2 (*)) ?ng x)"
    using ng x by (intro bmat_pure) (simp_all add: mul_def)
  have s: "bmat add (map2 (map2 (*)) h g) (map2 (map2 (*)) ?ng x)
           = Inr (map2 (map2 (+)) (map2 (map2 (*)) h g) (map2 (map2 (*)) ?ng x))"
    using h(2) g(2) ng x by (intro bmat_pure is_mat_map2) (simp_all add: add_def)
  have l: "length x = k" "length h = k" "length g = k"
    using x h(2) g(2) by (simp_all add: is_mat_def)
  have e: "map2 (map2 (+)) (map2 (map2 (*)) h g) (map2 (map2 (*)) ?ng x)
           = map (\<lambda>i. map (\<lambda>j. g ! i ! j * h ! i ! j + (1 - g ! i ! j) * x ! i ! j) [0..<n]) [0..<k]"
  proof (rule nth_equalityI)
    show "length (map2 (map2 (+)) (map2 (map2 (*)) h g) (map2 (map2 (*)) ?ng x))
          = length (map (\<lambda>i. map (\<lambda>j. g ! i ! j * h ! i ! j + (1 - g ! i ! j) * x ! i ! j) [0..<n])
                     [0..<k])"
      by (simp add: l)
  next
    fix i assume "i < length (map2 (map2 (+)) (map2 (map2 (*)) h g) (map2 (map2 (*)) ?ng x))"
    then have i: "i < k" by (simp add: l)
    have li: "length (x ! i) = n" "length (h ! i) = n" "length (g ! i) = n"
      using x h(2) g(2) i by (simp_all add: is_mat_nth)
    show "map2 (map2 (+)) (map2 (map2 (*)) h g) (map2 (map2 (*)) ?ng x) ! i
          = map (\<lambda>i. map (\<lambda>j. g ! i ! j * h ! i ! j + (1 - g ! i ! j) * x ! i ! j) [0..<n]) [0..<k] ! i"
      using i by (intro nth_equalityI) (simp_all add: l li mult.commute)
  qed
  have "HighwayMLP_forward self x
        = Inr (map (\<lambda>i. map (\<lambda>j. g ! i ! j * h ! i ! j + (1 - g ! i ! j) * x ! i ! j) [0..<n]) [0..<k])"
    unfolding HighwayMLP_forward_transformed_gate
    by (simp only: h(1) g(1) a c s e and_then_Inr)
  then show ?thesis by simp
qed

theorem HighwayMLP_forward_mix_witness:
  "HighwayMLP_forward
     \<lparr>activation_function = relu_mat, gate_activation = sigmoid_mat,
      normal_layer = \<lparr>in_features = 1, out_features = 1, lin_weight = [[2]], lin_bias = [1]\<rparr>,
      gate_layer = \<lparr>in_features = 1, out_features = 1, lin_weight = [[0]], lin_bias = [0]\<rparr>\<rparr>
     [[3]]
   = Inr [[5]]"
  using HighwayMLP_forward_mix [of 1 1 "[[3]]"
     "\<lparr>activation_function = relu_mat, gate_activation = sigmoid_mat,
      normal_layer = \<lparr>in_features = 1, out_features = 1, lin_weight = [[2]], lin_bias = [1]\<rparr>,
      gate_layer = \<lparr>in_features = 1, out_features = 1, lin_weight = [[0]], lin_bias = [0]\<rparr>\<rparr>"
     "[[7]]" "[[1 / 2]]"]
  by (simp add: is_mat_def transformed_def gate_def Linear_forward_def relu_mat_def
      sigmoid_mat_def relu_def sigmoid_def dot_def and_then_Inr)

text \<open>
  Claim C8. For an \<^verbatim>\<open>Attention(feature_dim, step_dim)\<close> layer (bias set, both sizes
  positive) and an input of shape \<open>(batch, step_dim, feature_dim)\<close> with no mask,
  \<^verbatim>\<open>forward\<close> returns the matrix of shape \<open>(batch, feature_dim)\<close> whose row for a
  batch element is the sum over the steps \<open>t\<close> of \<open>a\<^sub>t * x\<^sub>t\<close>, where
  \<open>a\<^sub>t = exp (tanh (x\<^sub>t . weight + b\<^sub>t)) / (\<Sum>s. exp (tanh (x\<^sub>s . weight + b\<^sub>s))) + 1e-10\<close>.
\<close>

theorem Attention_forward_weighted_sum:
  assumes "Attention_inst f s self" and "0 < f" and "0 < s" and "is_ten3 n s f x"
  shows "Attention_forward self x None = Inr (map (weighted_sum self) x)
         \<and> is_mat n f (map (weighted_sum self) x)"
proof -
  from assms(1) have "feature_dim self = f" by (simp add: Attention_inst_def)
  moreover from assms(4) have "length x = n" by (simp add: is_ten3_def)
  ultimately show ?thesis
    using Attention_forward_rows [OF assms] weighted_sum_shape [of self f x] by simp
qed

theorem Attention_forward_weighted_sum_witness:
  "Attention_forward \<lparr>bias = True, feature_dim = 2, step_dim = 2, weight = [[0], [0]], b = [0, 0]\<rparr>
     [[[1, 2], [3, 4]]] None
   = Inr [[2 + 4 / 10 ^ 10, 3 + 6 / 10 ^ 10]]"
  using Attention_forward_weighted_sum
    [of 2 2 "\<lparr>bias = True, feature_dim = 2, step_dim = 2, weight = [[0], [0]], b = [0, 0]\<rparr>"
        1 "[[[1, 2], [3, 4]]]"]
  by (simp add: Attention_inst_def is_ten3_def is_mat_def weighted_sum_def coefficient_def
      score_def dot_def column_def lessThan_Suc numeral_2_eq_2)

text \<open>
  Claim C9. The loop of \<^verbatim>\<open>SENet.__init__\<close> that applies \<^verbatim>\<open>_weight_init\<close> to every module
  makes no call into \<^verbatim>\<open>nn.init\<close>: \<^verbatim>\<open>_weight_init\<close> acts on \<^verbatim>\<open>nn.Conv2d\<close> and
  \<^verbatim>\<open>nn.BatchNorm2d\<close> only, and no module of the network is of either class, so every
  parameter keeps the value it had. The pooling module of \<^verbatim>\<open>models/utils.py\<close> is
  taken to contain neither class.
\<close>

theorem weight_init_pass_is_noop:
  assumes "SENet_init fw pool blk layers g r dr in_chans inp input_3x3 k pd nc gp
           = Inr (m, calls)"
    and "\<And>p. pool gp = Inr p \<Longrightarrow> free_of [Conv2d, BatchNorm2d] p"
  shows "calls = [] \<and> list_all (\<lambda>k. weight_init k = []) (modules m)"
proof -
  have "free_of [Conv2d, BatchNorm2d] m"
    using assms by (rule free_of_SENet_init) simp_all
  then have w: "list_all (\<lambda>k. weight_init k = []) (modules m)"
    by (rule weight_init_free)
  from SENet_init_InrD [OF assms(1)] have "calls = concat (map weight_init (modules m))"
    by blast
  with w show ?thesis by (simp add: list_all_iff)
qed

theorem weight_init_pass_is_noop_witness:
  "\<exists>m. seresnet50 (\<lambda>c a. True) (\<lambda>g. Inr (Module SelectAdaptivePool1d [] [])) 9 12 = Inr (m, [])
       \<and> list_all (\<lambda>k. weight_init k = []) (modules m)"
proof -
  let ?pool = "\<lambda>g :: string. (Inr (Module SelectAdaptivePool1d [] []) :: error + module)"
  have "case seresnet50 (\<lambda>c a. True) ?pool 9 12 of Inl e \<Rightarrow> False | Inr v \<Rightarrow> True"
    by code_simp
  then obtain m calls where r: "seresnet50 (\<lambda>c a. True) ?pool 9 12 = Inr (m, calls)"
    by (cases "seresnet50 (\<lambda>c a. True) ?pool 9 12") auto
  have p: "\<And>p. ?pool ''max'' = Inr p \<Longrightarrow> free_of [Conv2d, BatchNorm2d] p"
    by (auto simp: free_of_Module)
  from weight_init_pass_is_noop [OF r [unfolded seresnet50_def] p] r
  show ?thesis by auto
qed

end
